theory Spec2Isabelle
  imports Main
begin

section \<open>JavaScript values and operators used by the Signal monitor\<close>

text \<open>
  The embedding follows \<^verbatim>\<open>src/signal/monitor.ts\<close>. An optional or nullable
  field \<^verbatim>\<open>f?: T | null\<close> is a \<open>T option\<close>; the handler never distinguishes
  \<^verbatim>\<open>undefined\<close> from \<^verbatim>\<open>null\<close>. Strings are \<open>string\<close>; the
  identifiers the monitor compares (E.164 numbers, UUIDs, policy names) are ASCII.
  A thrown error or a rejected promise is the string that \<^verbatim>\<open>String(err)\<close> yields.
\<close>

text \<open>\<^verbatim>\<open>a ?? b\<close> on an optional value.\<close>

definition nullish :: "'a option \<Rightarrow> 'a \<Rightarrow> 'a" where
  "nullish a b = (case a of None \<Rightarrow> b | Some v \<Rightarrow> v)"

text \<open>Truthiness of an optional string: present and non-empty.\<close>

definition truthy :: "string option \<Rightarrow> bool" where
  "truthy a = (case a of None \<Rightarrow> False | Some s \<Rightarrow> s \<noteq> [])"

text \<open>\<^verbatim>\<open>a || b\<close> on an optional string with a string default.\<close>

definition or_else :: "string option \<Rightarrow> string \<Rightarrow> string" where
  "or_else a b = (case a of None \<Rightarrow> b | Some s \<Rightarrow> if s = [] then b else s)"

text \<open>Truthiness of an optional number: present and non-zero.\<close>

definition truthy_num :: "int option \<Rightarrow> bool" where
  "truthy_num a = (case a of None \<Rightarrow> False | Some n \<Rightarrow> n \<noteq> 0)"

text \<open>
  \<^verbatim>\<open>String.prototype.trim\<close>: white space and line terminators are removed from
  both ends. The ASCII ones are modelled (space, tab, LF, VT, FF, CR).
\<close>

definition js_whitespace :: "char \<Rightarrow> bool" where
  "js_whitespace c =
     (c = CHR '' '' \<or> c = CHR 0x09 \<or> c = CHR 0x0A \<or> c = CHR 0x0B \<or> c = CHR 0x0C \<or> c = CHR 0x0D)"

definition trim :: "string \<Rightarrow> string" where
  "trim s = rev (dropWhile js_whitespace (rev (dropWhile js_whitespace s)))"

text \<open>\<^verbatim>\<open>parts.filter(Boolean).join(":")\<close>.\<close>

fun join_colon :: "string list \<Rightarrow> string" where
  "join_colon [] = []"
| "join_colon [s] = s"
| "join_colon (s # t # ts) = s @ '':'' @ join_colon (t # ts)"

section \<open>Data model\<close>

record SignalGroupInfo =
  groupId :: "string option"
  groupName :: "string option"

record SignalReactionMessage =
  emoji :: "string option"
  targetAuthor :: "string option"
  targetAuthorUuid :: "string option"
  targetSentTimestamp :: "int option"
  isRemove :: "bool option"
  reactionGroupInfo :: "SignalGroupInfo option"

record SignalAttachment =
  attachmentId :: "string option"
  contentType :: "string option"
  filename :: "string option"
  attachmentSize :: "int option"

record SignalQuote =
  quoteText :: "string option"

record SignalDataMessage =
  dataTimestamp :: "int option"
  message :: "string option"
  attachments :: "SignalAttachment list option"
  groupInfo :: "SignalGroupInfo option"
  quote :: "SignalQuote option"

record SignalEditMessage =
  editDataMessage :: "SignalDataMessage option"

text \<open>
  \<^verbatim>\<open>syncMessage?: unknown\<close> is only ever tested for truthiness, so the field
  holds that truth value.
\<close>

record SignalEnvelope =
  sourceNumber :: "string option"
  sourceUuid :: "string option"
  sourceName :: "string option"
  timestamp :: "int option"
  dataMessage :: "SignalDataMessage option"
  editMessage :: "SignalEditMessage option"
  syncMessage :: bool
  reactionMessage :: "SignalReactionMessage option"

record SignalException =
  exceptionMessage :: "string option"

record SignalReceivePayload =
  payloadAccount :: "string option"
  envelope :: "SignalEnvelope option"
  exception :: "SignalException option"

record SseEvent =
  eventName :: "string option"
  eventData :: "string option"

text \<open>
  Modelled from the spec: the sender identity type of \<^verbatim>\<open>identity.ts\<close>, which is
  missing. Section 3 gives it as the tagged union
  \<^verbatim>\<open>{kind: phone, e164} | {kind: uuid, id}\<close>; the monitor reads \<^verbatim>\<open>sender.kind\<close>
  and \<^verbatim>\<open>sender.e164\<close>.
\<close>

datatype SignalSender = PhoneSender (e164: string) | UuidSender (senderUuid: string)

datatype SignalReactionNotificationMode = ModeOff | ModeOwn | ModeAllowlist | ModeAll

datatype DmPolicy = DmOpen | DmPairing | DmDisabled | DmAllowlist

datatype GroupPolicy = GroupOpen | GroupDisabled | GroupAllowlist

fun dmPolicyName :: "DmPolicy \<Rightarrow> string" where
  "dmPolicyName DmOpen = ''open''"
| "dmPolicyName DmPairing = ''pairing''"
| "dmPolicyName DmDisabled = ''disabled''"
| "dmPolicyName DmAllowlist = ''allowlist''"

datatype TargetKind = KindPhone | KindUuid

record SignalReactionTarget =
  kind :: TargetKind
  targetId :: string
  display :: string

section \<open>Reaction targets and the notification decision\<close>

text \<open>
  \<^verbatim>\<open>normalizeE164\<close> (\<^verbatim>\<open>utils.ts\<close>) and \<^verbatim>\<open>isSignalSenderAllowed\<close>
  (\<^verbatim>\<open>identity.ts\<close>) are not part of the sources at hand; the functions that call
  them take them as parameters.
\<close>

definition resolveSignalReactionTargets ::
  "(string \<Rightarrow> string) \<Rightarrow> SignalReactionMessage \<Rightarrow> SignalReactionTarget list" where
  "resolveSignalReactionTargets normalizeE164 reaction =
     (let uuid = map_option trim (targetAuthorUuid reaction);
          targets1 = (if truthy uuid
                      then [\<lparr>kind = KindUuid, targetId = the uuid, display = ''uuid:'' @ the uuid\<rparr>]
                      else []);
          author = map_option trim (targetAuthor reaction);
          targets2 = (if truthy author
                      then [\<lparr>kind = KindPhone,
                              targetId = normalizeE164 (the author),
                              display = normalizeE164 (the author)\<rparr>]
                      else [])
      in targets1 @ targets2)"

text \<open>The callback of \<^verbatim>\<open>targets.some(...)\<close> in mode \<^verbatim>\<open>own\<close>.\<close>

definition ownTargetMatches :: "string \<Rightarrow> string \<Rightarrow> SignalReactionTarget \<Rightarrow> bool" where
  "ownTargetMatches accountId normalizedAccount target =
     (if kind target = KindUuid
      then accountId = targetId target \<or> accountId = ''uuid:'' @ targetId target
      else normalizedAccount = targetId target)"

definition shouldEmitSignalReactionNotification ::
  "(string \<Rightarrow> string) \<Rightarrow> (SignalSender \<Rightarrow> string list \<Rightarrow> bool) \<Rightarrow>
   SignalReactionNotificationMode option \<Rightarrow> string option \<Rightarrow>
   SignalReactionTarget list option \<Rightarrow> SignalSender option \<Rightarrow> string list option \<Rightarrow> bool" where
  "shouldEmitSignalReactionNotification normalizeE164 isSignalSenderAllowed
       mode account targets sender allowlist =
     (let effectiveMode = nullish mode ModeOwn in
      if effectiveMode = ModeOff then False
      else if effectiveMode = ModeOwn then
        (let accountId = map_option trim account in
         if \<not> truthy accountId \<or> targets = None \<or> the targets = [] then False
         else list_ex (ownTargetMatches (the accountId) (normalizeE164 (the accountId)))
                (the targets))
      else if effectiveMode = ModeAllowlist then
        (if sender = None \<or> allowlist = None \<or> the allowlist = [] then False
         else isSignalSenderAllowed (the sender) (the allowlist))
      else True)"

definition buildSignalReactionSystemEventText ::
  "string \<Rightarrow> string \<Rightarrow> string \<Rightarrow> string option \<Rightarrow> string option \<Rightarrow> string" where
  "buildSignalReactionSystemEventText emojiLabel actorLabel messageId targetLabel groupLabel =
     (let base = ''Signal reaction added: '' @ emojiLabel @ '' by '' @ actorLabel
                   @ '' msg '' @ messageId;
          withTarget = (if truthy targetLabel then base @ '' from '' @ the targetLabel else base)
      in if truthy groupLabel then withTarget @ '' in '' @ the groupLabel else withTarget)"

definition normalizeAllowList :: "string list option \<Rightarrow> string list" where
  "normalizeAllowList raw = filter (\<lambda>s. s \<noteq> []) (map trim (nullish raw []))"

section \<open>Collaborators, effects and the world\<close>

record AgentRoute =
  sessionKey :: string
  mainSessionKey :: string
  routeAccountId :: string
  agentId :: string

text \<open>The object literal \<^verbatim>\<open>ctxPayload\<close> handed to the reply pipeline.\<close>

record MsgContext =
  Body :: string
  From :: string
  To :: string
  SessionKey :: string
  AccountId :: string
  ChatType :: string
  GroupSubject :: "string option"
  SenderName :: string
  SenderId :: string
  Provider :: string
  Surface :: string
  MessageSid :: "string option"
  Timestamp :: "int option"
  MediaPath :: "string option"
  MediaType :: "string option"
  MediaUrl :: "string option"
  CommandAuthorized :: bool
  OriginatingChannel :: string
  OriginatingTo :: string

record RpcParams =
  rpcId :: string
  rpcAccount :: "string option"
  rpcGroupId :: "string option"
  rpcRecipient :: "string option"

record SavedMedia =
  savedPath :: string
  savedContentType :: "string option"

text \<open>
  Every call that leaves the handler is recorded, in order, as an effect. The options
  object of \<^verbatim>\<open>sendMessageSignal\<close> (base URL, account, size cap, account id) is the
  monitor's fixed configuration and is not recorded. The reply dispatcher passed to
  \<^verbatim>\<open>dispatchReplyFromConfig\<close> is represented by its response prefix; what the
  external reply pipeline sends through it is part of that one effect. The runtime's
  \<^verbatim>\<open>error\<close> channel is taken to be present, as in the default runtime, so that
  \<^verbatim>\<open>runtime.error?.(...)\<close> always logs.
\<close>

datatype effect =
    RuntimeError string
  | LogVerbose string
  | ReadProviderAllowFromStore string
  | UpsertProviderPairingRequest string string "string option"
  | SendMessageSignal string string
  | EnqueueSystemEvent string string string
  | UpdateLastRoute string string string string string
  | SignalRpcRequest string RpcParams
  | SaveMediaBuffer string "string option" string int
  | DispatchReplyFromConfig MsgContext "string option" "bool option"

datatype outcome = Returned | Threw string

text \<open>
  The closure variables that \<^verbatim>\<open>monitorSignalProvider\<close> computes once (lines
  313 to 335) and \<^verbatim>\<open>handleEvent\<close> reads.
\<close>

record Monitor =
  baseUrl :: string
  account :: "string option"
  accountId :: string
  dmPolicy :: DmPolicy
  allowFrom :: "string list"
  groupAllowFrom :: "string list"
  groupPolicy :: GroupPolicy
  reactionMode :: SignalReactionNotificationMode
  reactionAllowlist :: "string list"
  mediaMaxBytes :: int
  ignoreAttachments :: bool
  blockStreaming :: "bool option"

text \<open>
  The imported functions whose modules are not among the sources. Pure helpers are
  functions and are taken to return (none of them throws); a call with an effect takes
  the external state \<open>'x\<close> (stores, queues, the network) and returns its result,
  \<open>Inl err\<close> when the promise rejects, with the new state. \<^verbatim>\<open>JSON.parse\<close> returns \<open>Inl err\<close> when it throws and \<open>Inr None\<close>
  for a value without fields (\<^verbatim>\<open>null\<close>).
\<close>

record 'x collaborators =
  JSON_parse :: "string \<Rightarrow> string + SignalReceivePayload option"
  normalizeE164 :: "string \<Rightarrow> string"
  resolveSignalSender :: "SignalEnvelope \<Rightarrow> SignalSender option"
  isSignalSenderAllowed :: "SignalSender \<Rightarrow> string list \<Rightarrow> bool"
  formatSignalSenderDisplay :: "SignalSender \<Rightarrow> string"
  formatSignalSenderId :: "SignalSender \<Rightarrow> string"
  formatSignalPairingIdLine :: "SignalSender \<Rightarrow> string"
  resolveSignalPeerId :: "SignalSender \<Rightarrow> string"
  resolveSignalRecipient :: "SignalSender \<Rightarrow> string"
  resolveAgentRoute :: "string \<Rightarrow> bool \<Rightarrow> string \<Rightarrow> AgentRoute"
  resolveStorePath :: "string \<Rightarrow> string"
  responsePrefix :: "string \<Rightarrow> string option"
  buildPairingReply :: "string \<Rightarrow> string \<Rightarrow> string"
  formatAgentEnvelope :: "string \<Rightarrow> int option \<Rightarrow> string \<Rightarrow> string"
  mediaKindFromMime :: "string option \<Rightarrow> string option"
  danger :: "string \<Rightarrow> string"
  numToString :: "int \<Rightarrow> string"
  shouldLogVerbose :: bool
  readProviderAllowFromStore :: "'x \<Rightarrow> (string + string list) \<times> 'x"
  upsertProviderPairingRequest ::
    "string \<Rightarrow> string option \<Rightarrow> 'x \<Rightarrow> (string + string \<times> bool) \<times> 'x"
  sendMessageSignal :: "string \<Rightarrow> string \<Rightarrow> 'x \<Rightarrow> (string + unit) \<times> 'x"
  enqueueSystemEvent :: "string \<Rightarrow> string \<Rightarrow> string \<Rightarrow> 'x \<Rightarrow> 'x"
  updateLastRoute ::
    "string \<Rightarrow> string \<Rightarrow> string \<Rightarrow> string \<Rightarrow> 'x \<Rightarrow> (string + unit) \<times> 'x"
  signalRpcRequest :: "RpcParams \<Rightarrow> 'x \<Rightarrow> (string + string option) \<times> 'x"
  saveMediaBuffer :: "string \<Rightarrow> string option \<Rightarrow> int \<Rightarrow> 'x \<Rightarrow> (string + SavedMedia) \<times> 'x"
  dispatchReplyFromConfig :: "MsgContext \<Rightarrow> bool option \<Rightarrow> 'x \<Rightarrow> (string + bool) \<times> 'x"

record 'x world =
  extState :: 'x
  trace :: "effect list"

text \<open>A call without a result that matters (a log line).\<close>

definition emit :: "effect \<Rightarrow> 'x world \<Rightarrow> 'x world" where
  "emit e w = w\<lparr>trace := trace w @ [e]\<rparr>"

text \<open>A call to a collaborator: recorded, then answered by the collaborator.\<close>

definition perform :: "effect \<Rightarrow> ('x \<Rightarrow> 'r \<times> 'x) \<Rightarrow> 'x world \<Rightarrow> 'r \<times> 'x world" where
  "perform e f w =
     (let rx = f (extState w)
      in (fst rx, \<lparr>extState = snd rx, trace = trace w @ [e]\<rparr>))"

section \<open>The reaction path (lines 404 to 461)\<close>

definition handleReaction ::
  "Monitor \<Rightarrow> 'x collaborators \<Rightarrow> SignalEnvelope \<Rightarrow> SignalSender \<Rightarrow>
   SignalReactionMessage \<Rightarrow> 'x world \<Rightarrow> outcome \<times> 'x world" where
  "handleReaction m ext env sender reaction w =
     (if isRemove reaction = Some True then (Returned, w)
      else
        let emojiLabel = or_else (map_option trim (emoji reaction)) ''emoji'';
            senderDisplay = formatSignalSenderDisplay ext sender;
            senderName = nullish (sourceName env) senderDisplay;
            w1 = emit (LogVerbose (''signal reaction: '' @ emojiLabel @ '' from '' @ senderName)) w;
            targets = resolveSignalReactionTargets (normalizeE164 ext) reaction;
            shouldNotify =
              shouldEmitSignalReactionNotification (normalizeE164 ext) (isSignalSenderAllowed ext)
                (Some (reactionMode m)) (account m) (Some targets) (Some sender)
                (Some (reactionAllowlist m))
        in if \<not> shouldNotify then (Returned, w1)
           else
             let gId = Option.bind (reactionGroupInfo reaction) groupId;
                 gName = Option.bind (reactionGroupInfo reaction) groupName;
                 isGroup = truthy gId;
                 senderPeerId = resolveSignalPeerId ext sender;
                 route = resolveAgentRoute ext (accountId m) isGroup
                           (if isGroup then nullish gId ''unknown'' else senderPeerId);
                 groupLabel = (if isGroup
                               then Some (nullish gName ''Signal Group'' @ '' id:'' @ the gId)
                               else None);
                 messageId = (if truthy_num (targetSentTimestamp reaction)
                              then numToString ext (the (targetSentTimestamp reaction))
                              else ''unknown'');
                 eventText = buildSignalReactionSystemEventText emojiLabel senderName messageId
                               (case targets of [] \<Rightarrow> None | t # _ \<Rightarrow> Some (display t))
                               groupLabel;
                 senderId = formatSignalSenderId ext sender;
                 contextKey = join_colon (filter (\<lambda>s. s \<noteq> [])
                                [''signal'', ''reaction'', ''added'', messageId, senderId,
                                 emojiLabel, nullish gId '''']);
                 w2 = snd (perform (EnqueueSystemEvent eventText (sessionKey route) contextKey)
                             (\<lambda>x. ((), enqueueSystemEvent ext eventText (sessionKey route)
                                           contextKey x)) w1)
             in (Returned, w2))"

section \<open>The conversational path (lines 463 to 688)\<close>

text \<open>
  \<^verbatim>\<open>await readProviderAllowFromStore("signal").catch(() => [])\<close> (lines 473 to 475).
\<close>

definition readStoreAllowFrom :: "'x collaborators \<Rightarrow> 'x world \<Rightarrow> string list \<times> 'x world" where
  "readStoreAllowFrom ext w =
     (let rw = perform (ReadProviderAllowFromStore ''signal'') (readProviderAllowFromStore ext) w
      in (case fst rw of Inl err \<Rightarrow> [] | Inr entries \<Rightarrow> entries, snd rw))"

text \<open>The pairing branch of an unauthorized direct message (lines 487 to 517).\<close>

definition requestPairing ::
  "'x collaborators \<Rightarrow> SignalEnvelope \<Rightarrow> SignalSender \<Rightarrow> string \<Rightarrow> 'x world \<Rightarrow>
   outcome \<times> 'x world" where
  "requestPairing ext env sender senderRecipient w =
     (let senderId = formatSignalSenderId ext sender;
          rw = perform (UpsertProviderPairingRequest ''signal'' senderId (sourceName env))
                 (upsertProviderPairingRequest ext senderId (sourceName env)) w
      in case fst rw of
           Inl err \<Rightarrow> (Threw err, snd rw)
         | Inr (code, created) \<Rightarrow>
             if created then
               let w2 = emit (LogVerbose (''signal pairing request sender='' @ senderId)) (snd rw);
                   target = ''signal:'' @ senderRecipient;
                   reply = buildPairingReply ext (formatSignalPairingIdLine ext sender) code;
                   sw = perform (SendMessageSignal target reply)
                          (sendMessageSignal ext target reply) w2
               in (case fst sw of
                     Inl err \<Rightarrow>
                       (Returned,
                        emit (LogVerbose (''signal pairing reply failed for '' @ senderId
                                            @ '': '' @ err)) (snd sw))
                   | Inr _ \<Rightarrow> (Returned, snd sw))
             else (Returned, snd rw))"

text \<open>
  \<^verbatim>\<open>fetchAttachment\<close> (lines 213 to 250). The size cap is a whole number of bytes;
  \<^verbatim>\<open>toFixed(0)\<close> rounds the cap in MB to the nearest integer.
\<close>

definition attachmentRpcParams ::
  "string option \<Rightarrow> SignalAttachment \<Rightarrow> string option \<Rightarrow> string option \<Rightarrow> RpcParams" where
  "attachmentRpcParams acct attachment sender gId =
     \<lparr>rpcId = the (attachmentId attachment),
      rpcAccount = (if truthy acct then acct else None),
      rpcGroupId = (if truthy gId then gId else None),
      rpcRecipient = (if truthy gId then None else sender)\<rparr>"

definition fetchAttachment ::
  "'x collaborators \<Rightarrow> string \<Rightarrow> string option \<Rightarrow> SignalAttachment \<Rightarrow> string option \<Rightarrow>
   string option \<Rightarrow> int \<Rightarrow> 'x world \<Rightarrow> (string + (string \<times> string option) option) \<times> 'x world" where
  "fetchAttachment ext url acct attachment sender gId maxBytes w =
     (if \<not> truthy (attachmentId attachment) then (Inr None, w)
      else if truthy_num (attachmentSize attachment) \<and> the (attachmentSize attachment) > maxBytes
      then (Inl (''Error: Signal attachment '' @ the (attachmentId attachment) @ '' exceeds ''
                  @ numToString ext ((maxBytes + 524288) div 1048576) @ ''MB limit''), w)
      else if \<not> truthy gId \<and> \<not> truthy sender then (Inr None, w)
      else
        let rpcParams = attachmentRpcParams acct attachment sender gId;
            rw = perform (SignalRpcRequest ''getAttachment'' rpcParams)
                   (signalRpcRequest ext rpcParams) w
        in case fst rw of
             Inl err \<Rightarrow> (Inl err, snd rw)
           | Inr result \<Rightarrow>
               if \<not> truthy result then (Inr None, snd rw)
               else
                 let sw = perform (SaveMediaBuffer (the result) (contentType attachment)
                                     ''inbound'' maxBytes)
                            (saveMediaBuffer ext (the result) (contentType attachment) maxBytes)
                            (snd rw)
                 in (case fst sw of
                       Inl err \<Rightarrow> (Inl err, snd sw)
                     | Inr saved \<Rightarrow>
                         (Inr (Some (savedPath saved, savedContentType saved)), snd sw)))"

text \<open>
  Lines 552 to 574: the first attachment is fetched unless attachments are ignored; a
  failure is reported on the runtime's error channel and the message goes on without
  media. The result is \<^verbatim>\<open>mediaPath\<close> and \<^verbatim>\<open>mediaType\<close>.
\<close>

definition fetchFirstAttachment ::
  "Monitor \<Rightarrow> 'x collaborators \<Rightarrow> SignalDataMessage \<Rightarrow> string \<Rightarrow> string option \<Rightarrow>
   'x world \<Rightarrow> (string option \<times> string option) \<times> 'x world" where
  "fetchFirstAttachment m ext dm senderRecipient gId w =
     (let firstAttachment = (case attachments dm of
                               Some (a # _) \<Rightarrow> Some a
                             | _ \<Rightarrow> None)
      in if firstAttachment \<noteq> None \<and> truthy (attachmentId (the firstAttachment))
            \<and> \<not> ignoreAttachments m
         then
           let fw = fetchAttachment ext (baseUrl m) (account m) (the firstAttachment)
                      (Some senderRecipient) gId (mediaMaxBytes m) w
           in case fst fw of
                Inl err \<Rightarrow>
                  ((None, None),
                   emit (RuntimeError (danger ext (''attachment fetch failed: '' @ err))) (snd fw))
              | Inr None \<Rightarrow> ((None, None), snd fw)
              | Inr (Some (path, ctype)) \<Rightarrow>
                  ((Some path,
                    (case ctype of
                       Some c \<Rightarrow> Some c
                     | None \<Rightarrow> contentType (the firstAttachment))),
                   snd fw)
         else ((None, None), w))"

text \<open>\<^verbatim>\<open>body.slice(0, 200).replace(/\n/g, "\\n")\<close>.\<close>

definition preview :: "string \<Rightarrow> string" where
  "preview body =
     concat (map (\<lambda>c. if c = CHR 0x0A then [CHR 0x5C, CHR ''n''] else [c]) (take 200 body))"

text \<open>
  Lines 550 and 576 to 584: the body text is the trimmed message, else a media
  placeholder, else the trimmed quote.
\<close>

definition resolveBodyText ::
  "'x collaborators \<Rightarrow> SignalDataMessage \<Rightarrow> string option \<Rightarrow> string" where
  "resolveBodyText ext dm mediaType =
     (let messageText = trim (nullish (message dm) []);
          mediaKind = mediaKindFromMime ext mediaType;
          placeholder = (if truthy mediaKind then ''<media:'' @ the mediaKind @ ''>''
                         else if attachments dm \<noteq> None \<and> the (attachments dm) \<noteq> []
                         then ''<media:attachment>''
                         else [])
      in if messageText \<noteq> [] then messageText
         else if placeholder \<noteq> [] then placeholder
         else or_else (map_option trim (Option.bind (quote dm) quoteText)) [])"

text \<open>Lines 597 to 605.\<close>

definition messageRoute ::
  "Monitor \<Rightarrow> 'x collaborators \<Rightarrow> SignalSender \<Rightarrow> SignalDataMessage \<Rightarrow> AgentRoute" where
  "messageRoute m ext sender dm =
     (let gId = Option.bind (groupInfo dm) groupId;
          isGroup = truthy gId
      in resolveAgentRoute ext (accountId m) isGroup
           (if isGroup then nullish gId ''unknown'' else resolveSignalPeerId ext sender))"

text \<open>Lines 587 to 632: the message context.\<close>

definition buildCtxPayload ::
  "Monitor \<Rightarrow> 'x collaborators \<Rightarrow> SignalEnvelope \<Rightarrow> SignalSender \<Rightarrow> SignalDataMessage \<Rightarrow>
   string option \<Rightarrow> string option \<Rightarrow> string \<Rightarrow> bool \<Rightarrow> MsgContext" where
  "buildCtxPayload m ext env sender dm mediaPath mediaType bodyText commandAuthorized =
     (let senderDisplay = formatSignalSenderDisplay ext sender;
          senderRecipient = resolveSignalRecipient ext sender;
          gId = Option.bind (groupInfo dm) groupId;
          gName = Option.bind (groupInfo dm) groupName;
          isGroup = truthy gId;
          fromLabel = (if isGroup
                       then nullish gName ''Signal Group'' @ '' id:'' @ the gId
                       else nullish (sourceName env) senderDisplay @ '' id:'' @ senderDisplay);
          body = formatAgentEnvelope ext fromLabel (timestamp env) bodyText;
          route = messageRoute m ext sender dm;
          signalTo = (if isGroup then ''group:'' @ the gId else ''signal:'' @ senderRecipient)
      in \<lparr>Body = body,
          From = (if isGroup then ''group:'' @ nullish gId ''unknown''
                  else ''signal:'' @ senderRecipient),
          To = signalTo,
          SessionKey = sessionKey route,
          AccountId = routeAccountId route,
          ChatType = (if isGroup then ''group'' else ''direct''),
          GroupSubject = (if isGroup then gName else None),
          SenderName = nullish (sourceName env) senderDisplay,
          SenderId = senderDisplay,
          Provider = ''signal'',
          Surface = ''signal'',
          MessageSid = (if truthy_num (timestamp env)
                        then Some (numToString ext (the (timestamp env))) else None),
          Timestamp = timestamp env,
          MediaPath = mediaPath,
          MediaType = mediaType,
          MediaUrl = mediaPath,
          CommandAuthorized = commandAuthorized,
          OriginatingChannel = ''signal'',
          OriginatingTo = signalTo\<rparr>)"

text \<open>
  Lines 634 to 688: the last route of a direct message is stored, the message is
  logged when verbose, and the context goes to the reply pipeline.
\<close>

definition dispatchMessage ::
  "Monitor \<Rightarrow> 'x collaborators \<Rightarrow> SignalSender \<Rightarrow> SignalDataMessage \<Rightarrow> MsgContext \<Rightarrow>
   'x world \<Rightarrow> outcome \<times> 'x world" where
  "dispatchMessage m ext sender dm ctxPayload w1 =
     (let isGroup = truthy (Option.bind (groupInfo dm) groupId);
          route = messageRoute m ext sender dm;
          uw = (if \<not> isGroup
                then perform (UpdateLastRoute (resolveStorePath ext (agentId route))
                                (mainSessionKey route) ''signal''
                                (resolveSignalRecipient ext sender) (routeAccountId route))
                       (updateLastRoute ext (resolveStorePath ext (agentId route))
                          (mainSessionKey route) (resolveSignalRecipient ext sender)
                          (routeAccountId route)) w1
                else (Inr (), w1))
      in case fst uw of
           Inl err \<Rightarrow> (Threw err, snd uw)
         | Inr _ \<Rightarrow>
             let w3 = (if shouldLogVerbose ext
                       then emit (LogVerbose (''signal inbound: from='' @ From ctxPayload
                                    @ '' len='' @ numToString ext (int (length (Body ctxPayload)))
                                    @ '' preview='' @ [CHR 0x22] @ preview (Body ctxPayload)
                                    @ [CHR 0x22])) (snd uw)
                       else snd uw);
                 disableBlockStreaming = map_option Not (blockStreaming m);
                 dw = perform (DispatchReplyFromConfig ctxPayload
                                 (responsePrefix ext (agentId route)) disableBlockStreaming)
                        (dispatchReplyFromConfig ext ctxPayload disableBlockStreaming) w3
             in (case fst dw of
                   Inl err \<Rightarrow> (Threw err, snd dw)
                 | Inr queuedFinal \<Rightarrow> (Returned, snd dw)))"

text \<open>
  Lines 550 to 688: what happens to a message that the access policy let through,
  with the flag \<^verbatim>\<open>commandAuthorized\<close> already computed. A message without body
  text is dropped after the attachment fetch.
\<close>

definition processMessage ::
  "Monitor \<Rightarrow> 'x collaborators \<Rightarrow> SignalEnvelope \<Rightarrow> SignalSender \<Rightarrow> SignalDataMessage \<Rightarrow>
   bool \<Rightarrow> 'x world \<Rightarrow> outcome \<times> 'x world" where
  "processMessage m ext env sender dm commandAuthorized w =
     (let mw = fetchFirstAttachment m ext dm (resolveSignalRecipient ext sender)
                 (Option.bind (groupInfo dm) groupId) w;
          mediaPath = fst (fst mw);
          mediaType = snd (fst mw);
          bodyText = resolveBodyText ext dm mediaType
      in if bodyText = [] then (Returned, snd mw)
         else dispatchMessage m ext sender dm
                (buildCtxPayload m ext env sender dm mediaPath mediaType bodyText
                   commandAuthorized) (snd mw))"

text \<open>Lines 545 to 549: the flag \<^verbatim>\<open>commandAuthorized\<close>.\<close>

definition commandAuthorizedFlag ::
  "'x collaborators \<Rightarrow> SignalSender \<Rightarrow> bool \<Rightarrow> string list \<Rightarrow> bool \<Rightarrow> bool" where
  "commandAuthorizedFlag ext sender isGroup effectiveGroupAllow dmAllowed =
     (if isGroup
      then (if effectiveGroupAllow \<noteq> []
            then isSignalSenderAllowed ext sender effectiveGroupAllow
            else True)
      else dmAllowed)"

text \<open>Lines 476 and 477: the static lists and the persisted list, concatenated.\<close>

definition effectiveDmAllow :: "Monitor \<Rightarrow> string list \<Rightarrow> string list" where
  "effectiveDmAllow m storeAllowFrom = allowFrom m @ storeAllowFrom"

definition effectiveGroupAllow :: "Monitor \<Rightarrow> string list \<Rightarrow> string list" where
  "effectiveGroupAllow m storeAllowFrom = groupAllowFrom m @ storeAllowFrom"

text \<open>
  Lines 478 to 549: the access policy for a conversational message, given the
  persisted list that was read, then \<open>processMessage\<close> for a message that is let
  through.
\<close>

definition applyAccessPolicy ::
  "Monitor \<Rightarrow> 'x collaborators \<Rightarrow> SignalEnvelope \<Rightarrow> SignalSender \<Rightarrow> SignalDataMessage \<Rightarrow>
   string list \<Rightarrow> 'x world \<Rightarrow> outcome \<times> 'x world" where
  "applyAccessPolicy m ext env sender dm storeAllowFrom w1 =
     (let senderDisplay = formatSignalSenderDisplay ext sender;
          senderRecipient = resolveSignalRecipient ext sender;
          gId = Option.bind (groupInfo dm) groupId;
          isGroup = truthy gId;
          dmAllowed = (if dmPolicy m = DmOpen then True
                       else isSignalSenderAllowed ext sender (effectiveDmAllow m storeAllowFrom))
      in if \<not> isGroup \<and> dmPolicy m = DmDisabled then (Returned, w1)
         else if \<not> isGroup \<and> \<not> dmAllowed then
           (if dmPolicy m = DmPairing
            then requestPairing ext env sender senderRecipient w1
            else (Returned,
                  emit (LogVerbose (''Blocked signal sender '' @ senderDisplay
                          @ '' (dmPolicy='' @ dmPolicyName (dmPolicy m) @ '')'')) w1))
         else if isGroup \<and> groupPolicy m = GroupDisabled
         then (Returned,
               emit (LogVerbose ''Blocked signal group message (groupPolicy: disabled)'') w1)
         else if isGroup \<and> groupPolicy m = GroupAllowlist
                 \<and> effectiveGroupAllow m storeAllowFrom = []
         then (Returned,
               emit (LogVerbose
                 ''Blocked signal group message (groupPolicy: allowlist, no groupAllowFrom)'')
                 w1)
         else if isGroup \<and> groupPolicy m = GroupAllowlist
                 \<and> \<not> isSignalSenderAllowed ext sender (effectiveGroupAllow m storeAllowFrom)
         then (Returned,
               emit (LogVerbose (''Blocked signal group sender '' @ senderDisplay
                       @ '' (not in groupAllowFrom)'')) w1)
         else processMessage m ext env sender dm
                (commandAuthorizedFlag ext sender isGroup
                   (effectiveGroupAllow m storeAllowFrom) dmAllowed) w1)"

text \<open>
  Lines 463 to 477: a sender without a recipient address is dropped; otherwise the
  persisted allow-list is read and the access policy applied.
\<close>

definition handleMessage ::
  "Monitor \<Rightarrow> 'x collaborators \<Rightarrow> SignalEnvelope \<Rightarrow> SignalSender \<Rightarrow> SignalDataMessage \<Rightarrow>
   'x world \<Rightarrow> outcome \<times> 'x world" where
  "handleMessage m ext env sender dm w =
     (if resolveSignalRecipient ext sender = [] then (Returned, w)
      else
        let sw = readStoreAllowFrom ext w
        in applyAccessPolicy m ext env sender dm (fst sw) (snd sw))"

section \<open>The handler (lines 378 to 463) and its caller (lines 696 to 700)\<close>

text \<open>Lines 396 to 400: the sender is the monitor's own account.\<close>

definition isSelfMessage :: "Monitor \<Rightarrow> 'x collaborators \<Rightarrow> SignalSender \<Rightarrow> bool" where
  "isSelfMessage m ext sender =
     (truthy (account m)
      \<and> (case sender of PhoneSender _ \<Rightarrow> True | UuidSender _ \<Rightarrow> False)
      \<and> e164 sender = normalizeE164 ext (the (account m)))"

text \<open>\<^verbatim>\<open>envelope.dataMessage ?? envelope.editMessage?.dataMessage\<close>.\<close>

definition resolveDataMessage :: "SignalEnvelope \<Rightarrow> SignalDataMessage option" where
  "resolveDataMessage env =
     (case dataMessage env of
        Some d \<Rightarrow> Some d
      | None \<Rightarrow> Option.bind (editMessage env) editDataMessage)"

text \<open>From \<^verbatim>\<open>if (envelope.syncMessage) return\<close> on.\<close>

definition handleEnvelope ::
  "Monitor \<Rightarrow> 'x collaborators \<Rightarrow> SignalEnvelope \<Rightarrow> 'x world \<Rightarrow> outcome \<times> 'x world" where
  "handleEnvelope m ext env w =
     (if syncMessage env then (Returned, w)
      else case resolveSignalSender ext env of
             None \<Rightarrow> (Returned, w)
           | Some sender \<Rightarrow>
               if isSelfMessage m ext sender then (Returned, w)
               else if reactionMessage env \<noteq> None \<and> resolveDataMessage env = None
               then handleReaction m ext env sender (the (reactionMessage env)) w
               else (case resolveDataMessage env of
                       None \<Rightarrow> (Returned, w)
                     | Some dm \<Rightarrow> handleMessage m ext env sender dm w))"

definition handleEvent ::
  "Monitor \<Rightarrow> 'x collaborators \<Rightarrow> SseEvent \<Rightarrow> 'x world \<Rightarrow> outcome \<times> 'x world" where
  "handleEvent m ext event w =
     (if eventName event \<noteq> Some ''receive'' \<or> \<not> truthy (eventData event) then (Returned, w)
      else case JSON_parse ext (the (eventData event)) of
             Inl err \<Rightarrow> (Returned, emit (RuntimeError (''failed to parse event: '' @ err)) w)
           | Inr payload \<Rightarrow>
               let w1 = (if truthy (Option.bind (Option.bind payload exception) exceptionMessage)
                         then emit (RuntimeError (''receive exception: ''
                                @ the (Option.bind (Option.bind payload exception) exceptionMessage)))
                                w
                         else w)
               in (case Option.bind payload envelope of
                     None \<Rightarrow> (Returned, w1)
                   | Some env \<Rightarrow> handleEnvelope m ext env w1))"

text \<open>
  \<^verbatim>\<open>onEvent\<close>: the handler's promise is not awaited by the stream loop; a rejection
  is caught and logged. One handler run is modelled as a whole: the interleaving of the
  handlers of successive frames at their await points is not.
\<close>

definition onEvent :: "Monitor \<Rightarrow> 'x collaborators \<Rightarrow> SseEvent \<Rightarrow> 'x world \<Rightarrow> 'x world" where
  "onEvent m ext event w =
     (case handleEvent m ext event w of
        (Returned, w') \<Rightarrow> w'
      | (Threw err, w') \<Rightarrow> emit (RuntimeError (''event handler failed: '' @ err)) w')"

section \<open>Observations on traces\<close>

fun isEnqueue :: "effect \<Rightarrow> bool" where
  "isEnqueue (EnqueueSystemEvent _ _ _) = True"
| "isEnqueue _ = False"

fun isUpsert :: "effect \<Rightarrow> bool" where
  "isUpsert (UpsertProviderPairingRequest _ _ _) = True"
| "isUpsert _ = False"

fun isSend :: "effect \<Rightarrow> bool" where
  "isSend (SendMessageSignal _ _) = True"
| "isSend _ = False"

text \<open>The message contexts handed to the reply pipeline, in order.\<close>

fun dispatched :: "effect list \<Rightarrow> MsgContext list" where
  "dispatched [] = []"
| "dispatched (DispatchReplyFromConfig c _ _ # es) = c # dispatched es"
| "dispatched (_ # es) = dispatched es"

text \<open>The effects recorded between two worlds of one run.\<close>

definition newEffects :: "'x world \<Rightarrow> 'x world \<Rightarrow> effect list" where
  "newEffects w w' = drop (length (trace w)) (trace w')"

text \<open>
  The effects that \<open>processMessage\<close> can record: logs, the attachment fetch, the
  last-route update and the hand-over to the reply pipeline, the latter carrying the
  given authorization flag.
\<close>

fun messageEffect :: "bool \<Rightarrow> effect \<Rightarrow> bool" where
  "messageEffect flag (RuntimeError _) = True"
| "messageEffect flag (LogVerbose _) = True"
| "messageEffect flag (UpdateLastRoute _ _ _ _ _) = True"
| "messageEffect flag (SignalRpcRequest _ _) = True"
| "messageEffect flag (SaveMediaBuffer _ _ _ _) = True"
| "messageEffect flag (DispatchReplyFromConfig c _ _) = (CommandAuthorized c = flag)"
| "messageEffect flag _ = False"

text \<open>\<open>w'\<close> continues the trace of \<open>w\<close> with effects that all satisfy \<open>Q\<close>.\<close>

definition extends :: "(effect \<Rightarrow> bool) \<Rightarrow> 'x world \<Rightarrow> 'x world \<Rightarrow> bool" where
  "extends Q w w' =
     (take (length (trace w)) (trace w') = trace w \<and> list_all Q (newEffects w w'))"

section \<open>A concrete monitor for the worked examples\<close>

text \<open>
  Stand-ins for the collaborators, after the mocks and the configuration of
  \<^verbatim>\<open>monitor.tool-result.test.ts\<close>. The external state is the list of sender ids
  with a pending pairing request: an upsert creates a request only for an id that has
  none, and the persisted allow-list is empty. The stand-in for \<^verbatim>\<open>JSON.parse\<close>
  knows the texts \<^verbatim>\<open>null\<close> and \<^verbatim>\<open>{}\<close> and rejects the other texts used
  below, none of which is JSON.
\<close>

definition exampleNormalizeE164 :: "string \<Rightarrow> string" where
  "exampleNormalizeE164 s =
     (case filter (\<lambda>c. c \<in> set ''0123456789+'') s of
        [] \<Rightarrow> ''+''
      | c # cs \<Rightarrow> if c = CHR ''+'' then c # cs else CHR ''+'' # c # cs)"

definition exampleResolveSender :: "SignalEnvelope \<Rightarrow> SignalSender option" where
  "exampleResolveSender env =
     (if truthy (map_option trim (sourceNumber env))
      then Some (PhoneSender (exampleNormalizeE164 (trim (the (sourceNumber env)))))
      else if truthy (map_option trim (sourceUuid env))
      then Some (UuidSender (trim (the (sourceUuid env))))
      else None)"

fun exampleSenderId :: "SignalSender \<Rightarrow> string" where
  "exampleSenderId (PhoneSender n) = n"
| "exampleSenderId (UuidSender u) = ''uuid:'' @ u"

fun exampleRecipient :: "SignalSender \<Rightarrow> string" where
  "exampleRecipient (PhoneSender n) = n"
| "exampleRecipient (UuidSender u) = u"

definition exampleSenderAllowed :: "SignalSender \<Rightarrow> string list \<Rightarrow> bool" where
  "exampleSenderAllowed sender entries =
     (''*'' \<in> set entries \<or> exampleSenderId sender \<in> set entries)"

definition exampleNumToString :: "int \<Rightarrow> string" where
  "exampleNumToString n = (if n = 1 then ''1'' else if n = 2 then ''2'' else ''0'')"

definition exampleCollaborators :: "string list collaborators" where
  "exampleCollaborators =
     \<lparr>JSON_parse = (\<lambda>s. if s = ''null'' then Inr None
                         else if s = ''{}''
                         then Inr (Some \<lparr>payloadAccount = None, envelope = None,
                                          exception = None\<rparr>)
                         else Inl ''SyntaxError: Unexpected token''),
      normalizeE164 = exampleNormalizeE164,
      resolveSignalSender = exampleResolveSender,
      isSignalSenderAllowed = exampleSenderAllowed,
      formatSignalSenderDisplay = exampleSenderId,
      formatSignalSenderId = exampleSenderId,
      formatSignalPairingIdLine = (\<lambda>sender. ''Your Signal sender id: '' @ exampleSenderId sender),
      resolveSignalPeerId = exampleSenderId,
      resolveSignalRecipient = exampleRecipient,
      resolveAgentRoute = (\<lambda>acc isGroup peer.
         \<lparr>sessionKey = (if isGroup then ''signal:group:'' else ''signal:dm:'') @ peer,
          mainSessionKey = ''main'', routeAccountId = acc, agentId = ''main''\<rparr>),
      resolveStorePath = (\<lambda>agent. ''/tmp/clawdbot-sessions.json''),
      responsePrefix = (\<lambda>agent. Some ''PFX''),
      buildPairingReply = (\<lambda>idLine code. idLine @ '' Pairing code: '' @ code),
      formatAgentEnvelope = (\<lambda>from ts body. ''[Signal '' @ from @ ''] '' @ body),
      mediaKindFromMime = (\<lambda>mime. None),
      danger = (\<lambda>s. s),
      numToString = exampleNumToString,
      shouldLogVerbose = False,
      readProviderAllowFromStore = (\<lambda>x. (Inr [], x)),
      upsertProviderPairingRequest = (\<lambda>senderId name x.
         (Inr (''PAIRCODE'', senderId \<notin> set x), if senderId \<in> set x then x else senderId # x)),
      sendMessageSignal = (\<lambda>target msg x. (Inr (), x)),
      enqueueSystemEvent = (\<lambda>eventText session contextKey x. x),
      updateLastRoute = (\<lambda>storePath session recipient acc x. (Inr (), x)),
      signalRpcRequest = (\<lambda>params x. (Inr None, x)),
      saveMediaBuffer = (\<lambda>buffer ctype maxBytes x. (Inl ''Error: not stored'', x)),
      dispatchReplyFromConfig = (\<lambda>ctx disableBlockStreaming x. (Inr True, x))\<rparr>"

definition exampleMonitor :: Monitor where
  "exampleMonitor =
     \<lparr>baseUrl = ''http://127.0.0.1:8080'',
      account = Some ''+15550002222'',
      accountId = ''default'',
      dmPolicy = DmOpen,
      allowFrom = [''*''],
      groupAllowFrom = [''*''],
      groupPolicy = GroupOpen,
      reactionMode = ModeOwn,
      reactionAllowlist = [],
      mediaMaxBytes = 8388608,
      ignoreAttachments = False,
      blockStreaming = None\<rparr>"

definition exampleReaction :: SignalReactionMessage where
  "exampleReaction =
     \<lparr>emoji = Some ''+1'',
      targetAuthor = Some ''+15550002222'',
      targetAuthorUuid = Some ''123e4567-e89b-12d3-a456-426614174000'',
      targetSentTimestamp = Some 2,
      isRemove = None,
      reactionGroupInfo = None\<rparr>"

definition exampleDataMessage :: SignalDataMessage where
  "exampleDataMessage =
     \<lparr>dataTimestamp = None, message = Some ''hello'', attachments = None,
      groupInfo = None, quote = None\<rparr>"

definition exampleGroupMessage :: SignalDataMessage where
  "exampleGroupMessage =
     \<lparr>dataTimestamp = None, message = Some ''hello'', attachments = None,
      groupInfo = Some \<lparr>groupId = Some ''g1'', groupName = Some ''Team''\<rparr>, quote = None\<rparr>"

text \<open>An envelope from Ada's number without any payload.\<close>

definition exampleEnvelope :: SignalEnvelope where
  "exampleEnvelope =
     \<lparr>sourceNumber = Some ''+15550001111'', sourceUuid = None, sourceName = Some ''Ada'',
      timestamp = Some 1, dataMessage = None, editMessage = None, syncMessage = False,
      reactionMessage = None\<rparr>"

definition emptyWorld :: "string list world" where
  "emptyWorld = \<lparr>extState = [], trace = []\<rparr>"


text \<open>
  The configuration of the pairing tests (\<^verbatim>\<open>dmPolicy: "pairing"\<close>, no static
  allow-list), Ada's message "hello", the world after that message was handled once,
  the same message in a group, and collaborators whose allow-list store read rejects.
\<close>

definition pairingMonitor :: Monitor where
  "pairingMonitor = exampleMonitor\<lparr>dmPolicy := DmPairing, allowFrom := []\<rparr>"

definition helloEnvelope :: SignalEnvelope where
  "helloEnvelope = exampleEnvelope\<lparr>dataMessage := Some exampleDataMessage\<rparr>"

definition afterFirstHello :: "string list world" where
  "afterFirstHello =
     snd (handleEnvelope pairingMonitor exampleCollaborators helloEnvelope emptyWorld)"

definition groupEnvelope :: SignalEnvelope where
  "groupEnvelope = exampleEnvelope\<lparr>dataMessage := Some exampleGroupMessage\<rparr>"

definition failingStoreCollaborators :: "string list collaborators" where
  "failingStoreCollaborators =
     exampleCollaborators\<lparr>readProviderAllowFromStore := (\<lambda>x. (Inl ''Error: ENOENT'', x))\<rparr>"

section \<open>Basic facts\<close>

lemma truthy_Some [simp]: "truthy (Some s) = (s \<noteq> [])"
  by (simp add: truthy_def)

lemma truthy_None [simp]: "truthy None = False"
  by (simp add: truthy_def)

lemma trim_Nil [simp]: "trim [] = []"
  by (simp add: trim_def)

lemma trace_emit [simp]: "trace (emit e w) = trace w @ [e]"
  by (simp add: emit_def)

lemma extState_emit [simp]: "extState (emit e w) = extState w"
  by (simp add: emit_def)

lemma trace_perform [simp]: "trace (snd (perform e f w)) = trace w @ [e]"
  by (simp add: perform_def Let_def)

lemma extState_perform [simp]: "extState (snd (perform e f w)) = snd (f (extState w))"
  by (simp add: perform_def Let_def)

lemma fst_perform [simp]: "fst (perform e f w) = fst (f (extState w))"
  by (simp add: perform_def Let_def)

lemma readStoreAllowFrom_trace [simp]:
  "trace (snd (readStoreAllowFrom ext w)) = trace w @ [ReadProviderAllowFromStore ''signal'']"
  by (simp add: readStoreAllowFrom_def Let_def)

text \<open>The definitions that a run on the concrete monitor unfolds.\<close>

lemmas model_defs =
  handleEvent_def onEvent_def handleEnvelope_def handleReaction_def handleMessage_def
  applyAccessPolicy_def requestPairing_def processMessage_def dispatchMessage_def
  buildCtxPayload_def messageRoute_def resolveBodyText_def fetchFirstAttachment_def
  commandAuthorizedFlag_def readStoreAllowFrom_def isSelfMessage_def resolveDataMessage_def
  effectiveDmAllow_def effectiveGroupAllow_def shouldEmitSignalReactionNotification_def
  resolveSignalReactionTargets_def ownTargetMatches_def buildSignalReactionSystemEventText_def
  perform_def emit_def newEffects_def Let_def nullish_def or_else_def truthy_num_def trim_def
  js_whitespace_def

lemmas example_defs =
  exampleCollaborators_def exampleMonitor_def exampleEnvelope_def exampleDataMessage_def
  exampleGroupMessage_def exampleReaction_def emptyWorld_def exampleResolveSender_def
  exampleNormalizeE164_def exampleSenderAllowed_def exampleNumToString_def pairingMonitor_def
  helloEnvelope_def groupEnvelope_def failingStoreCollaborators_def

section \<open>Which path an envelope takes\<close>

lemma handleEnvelope_reaction:
  assumes "\<not> syncMessage env" and "resolveSignalSender ext env = Some sender"
    and "\<not> isSelfMessage m ext sender" and "reactionMessage env = Some r"
    and "resolveDataMessage env = None"
  shows "handleEnvelope m ext env w = handleReaction m ext env sender r w"
  using assms by (simp add: handleEnvelope_def)

lemma handleEnvelope_message:
  assumes "\<not> syncMessage env" and "resolveSignalSender ext env = Some sender"
    and "\<not> isSelfMessage m ext sender" and "resolveDataMessage env = Some dm"
    and "resolveSignalRecipient ext sender \<noteq> []"
  shows "handleEnvelope m ext env w
         = applyAccessPolicy m ext env sender dm (fst (readStoreAllowFrom ext w))
             (snd (readStoreAllowFrom ext w))"
  using assms by (simp add: handleEnvelope_def handleMessage_def Let_def)

section \<open>The reaction decision\<close>

text \<open>
  Claim C9. In mode \<^verbatim>\<open>own\<close> (given explicitly or as the default of an absent
  mode) the decision is "do not notify" whenever the configured account is absent or
  blank after trimming, or the list of target candidates is absent or empty.
\<close>

theorem C9_own_mode_fails_closed:
  assumes "mode = None \<or> mode = Some ModeOwn"
    and "acct = None \<or> (\<exists>a. acct = Some a \<and> trim a = [])
         \<or> targets = None \<or> targets = Some []"
  shows "shouldEmitSignalReactionNotification norm allowed mode acct targets sender allowlist
         = False"
  using assms
  by (auto simp: shouldEmitSignalReactionNotification_def nullish_def Let_def)

text \<open>
  A blank account against a matching phone candidate, and a configured account against
  the candidates of a reaction that names no author.
\<close>

theorem C9_own_mode_fails_closed_witness:
  "trim ''   '' = []
   \<and> shouldEmitSignalReactionNotification exampleNormalizeE164 exampleSenderAllowed
         (Some ModeOwn) (Some ''   '')
         (Some (resolveSignalReactionTargets exampleNormalizeE164 exampleReaction))
         (Some (PhoneSender ''+15550001111'')) (Some []) = False
   \<and> resolveSignalReactionTargets exampleNormalizeE164
         (exampleReaction\<lparr>targetAuthor := None, targetAuthorUuid := Some '' ''\<rparr>) = []
   \<and> shouldEmitSignalReactionNotification exampleNormalizeE164 exampleSenderAllowed
         None (Some ''+15550002222'')
         (Some (resolveSignalReactionTargets exampleNormalizeE164
                  (exampleReaction\<lparr>targetAuthor := None, targetAuthorUuid := Some '' ''\<rparr>)))
         (Some (PhoneSender ''+15550001111'')) (Some []) = False"
proof -
  have blank: "trim ''   '' = []"
    by (simp add: trim_def js_whitespace_def)
  have none: "resolveSignalReactionTargets exampleNormalizeE164
                (exampleReaction\<lparr>targetAuthor := None, targetAuthorUuid := Some '' ''\<rparr>) = []"
    by (simp add: resolveSignalReactionTargets_def exampleReaction_def trim_def
        js_whitespace_def)
  have first: "shouldEmitSignalReactionNotification exampleNormalizeE164 exampleSenderAllowed
         (Some ModeOwn) (Some ''   '')
         (Some (resolveSignalReactionTargets exampleNormalizeE164 exampleReaction))
         (Some (PhoneSender ''+15550001111'')) (Some []) = False"
    by (rule C9_own_mode_fails_closed) (simp_all add: blank)
  have second: "shouldEmitSignalReactionNotification exampleNormalizeE164 exampleSenderAllowed
         None (Some ''+15550002222'')
         (Some (resolveSignalReactionTargets exampleNormalizeE164
                  (exampleReaction\<lparr>targetAuthor := None, targetAuthorUuid := Some '' ''\<rparr>)))
         (Some (PhoneSender ''+15550001111'')) (Some []) = False"
    by (rule C9_own_mode_fails_closed) (simp_all add: none)
  from blank none first second show ?thesis by blast
qed

lemma own_mode_decision:
  assumes "trim acct \<noteq> []"
  shows "shouldEmitSignalReactionNotification norm allowed (Some ModeOwn) (Some acct)
           (Some targets) sender allowlist
         = list_ex (ownTargetMatches (trim acct) (norm (trim acct))) targets"
  using assms
  by (auto simp: shouldEmitSignalReactionNotification_def nullish_def Let_def)

lemma phone_candidate_matches:
  assumes "targetAuthor r = Some a" and "trim a \<noteq> []"
    and "norm (trim a) = norm (trim acct)"
  shows "list_ex (ownTargetMatches (trim acct) (norm (trim acct)))
           (resolveSignalReactionTargets norm r)"
  using assms
  by (simp add: resolveSignalReactionTargets_def Let_def ownTargetMatches_def)

lemma handleReaction_notify:
  assumes "isRemove r \<noteq> Some True"
    and "shouldEmitSignalReactionNotification (normalizeE164 ext) (isSignalSenderAllowed ext)
           (Some (reactionMode m)) (account m)
           (Some (resolveSignalReactionTargets (normalizeE164 ext) r))
           (Some sender) (Some (reactionAllowlist m))"
  shows "\<exists>l t s c. fst (handleReaction m ext env sender r w) = Returned \<and>
           trace (snd (handleReaction m ext env sender r w))
           = trace w @ [LogVerbose l, EnqueueSystemEvent t s c]"
  using assms
  by (simp add: handleReaction_def Let_def)

text \<open>
  Claim C1. A reaction-only envelope that reaches the reaction path in mode
  \<^verbatim>\<open>own\<close>, with a configured account that is not blank, and whose reaction carries
  a \<^verbatim>\<open>targetAuthorUuid\<close> together with a \<^verbatim>\<open>targetAuthor\<close> whose normalized
  E.164 form equals the normalized account: the decision is the disjunction of the
  per-candidate matches over all candidates (a UUID candidate matches on the account
  string or its \<^verbatim>\<open>uuid:\<close> form, a phone candidate on the normalized number), it is
  "notify", the handler returns, and it enqueues exactly one notification.
\<close>

theorem C1_own_reaction_matches_phone_beside_uuid:
  assumes "\<not> syncMessage env"
    and "resolveSignalSender ext env = Some sender"
    and "\<not> isSelfMessage m ext sender"
    and "resolveDataMessage env = None"
    and "reactionMessage env = Some r"
    and "isRemove r \<noteq> Some True"
    and "reactionMode m = ModeOwn"
    and "account m = Some acct" and "trim acct \<noteq> []"
    and "targetAuthorUuid r = Some u"
    and "targetAuthor r = Some a" and "trim a \<noteq> []"
    and "normalizeE164 ext (trim a) = normalizeE164 ext (trim acct)"
  shows "shouldEmitSignalReactionNotification (normalizeE164 ext) (isSignalSenderAllowed ext)
           (Some ModeOwn) (Some acct) (Some (resolveSignalReactionTargets (normalizeE164 ext) r))
           (Some sender) (Some (reactionAllowlist m))
         = list_ex (ownTargetMatches (trim acct) (normalizeE164 ext (trim acct)))
             (resolveSignalReactionTargets (normalizeE164 ext) r)
       \<and> shouldEmitSignalReactionNotification (normalizeE164 ext) (isSignalSenderAllowed ext)
           (Some ModeOwn) (Some acct) (Some (resolveSignalReactionTargets (normalizeE164 ext) r))
           (Some sender) (Some (reactionAllowlist m))
       \<and> fst (handleEnvelope m ext env w) = Returned
       \<and> length (filter isEnqueue (trace (snd (handleEnvelope m ext env w))))
           = length (filter isEnqueue (trace w)) + 1"
proof -
  let ?targets = "resolveSignalReactionTargets (normalizeE164 ext) r"
  have every: "shouldEmitSignalReactionNotification (normalizeE164 ext)
           (isSignalSenderAllowed ext) (Some ModeOwn) (Some acct) (Some ?targets)
           (Some sender) (Some (reactionAllowlist m))
         = list_ex (ownTargetMatches (trim acct) (normalizeE164 ext (trim acct))) ?targets"
    using assms(9) by (rule own_mode_decision)
  have decide: "shouldEmitSignalReactionNotification (normalizeE164 ext)
           (isSignalSenderAllowed ext) (Some ModeOwn) (Some acct) (Some ?targets)
           (Some sender) (Some (reactionAllowlist m))"
    using assms(11,12,13) by (simp add: every phone_candidate_matches)
  have run: "handleEnvelope m ext env w = handleReaction m ext env sender r w"
    using assms(1-5) by (simp add: handleEnvelope_reaction)
  from decide assms(7,8) handleReaction_notify [OF assms(6), of ext m sender env w]
  obtain l t s c where "fst (handleReaction m ext env sender r w) = Returned"
    and "trace (snd (handleReaction m ext env sender r w))
         = trace w @ [LogVerbose l, EnqueueSystemEvent t s c]"
    by auto
  with every decide run show ?thesis by simp
qed

text \<open>
  The reaction of the test "notifies on own reactions when target includes uuid +
  phone": Ada reacts to a message of the account \<^verbatim>\<open>+15550002222\<close>.
\<close>

theorem C1_own_reaction_matches_phone_beside_uuid_witness:
  "resolveSignalSender exampleCollaborators
      (exampleEnvelope\<lparr>reactionMessage := Some exampleReaction\<rparr>)
     = Some (PhoneSender ''+15550001111'')
   \<and> \<not> isSelfMessage exampleMonitor exampleCollaborators (PhoneSender ''+15550001111'')
   \<and> targetAuthorUuid exampleReaction = Some ''123e4567-e89b-12d3-a456-426614174000''
   \<and> targetAuthor exampleReaction = Some ''+15550002222''
   \<and> normalizeE164 exampleCollaborators (trim ''+15550002222'')
       = normalizeE164 exampleCollaborators (trim ''+15550002222'')
   \<and> fst (handleEnvelope exampleMonitor exampleCollaborators
            (exampleEnvelope\<lparr>reactionMessage := Some exampleReaction\<rparr>) emptyWorld) = Returned
   \<and> length (filter isEnqueue (trace (snd (handleEnvelope exampleMonitor exampleCollaborators
            (exampleEnvelope\<lparr>reactionMessage := Some exampleReaction\<rparr>) emptyWorld)))) = 1"
proof -
  let ?env = "exampleEnvelope\<lparr>reactionMessage := Some exampleReaction\<rparr>"
  let ?sender = "PhoneSender ''+15550001111''"
  have h1: "\<not> syncMessage ?env"
    by (simp add: example_defs)
  have h2: "resolveSignalSender exampleCollaborators ?env = Some ?sender"
    by (simp add: example_defs trim_def js_whitespace_def)
  have h3: "\<not> isSelfMessage exampleMonitor exampleCollaborators ?sender"
    by (simp add: example_defs isSelfMessage_def)
  have h4: "resolveDataMessage ?env = None"
    by (simp add: example_defs resolveDataMessage_def)
  have h5: "reactionMessage ?env = Some exampleReaction"
    by simp
  have h6: "isRemove exampleReaction \<noteq> Some True"
    by (simp add: example_defs)
  have h7: "reactionMode exampleMonitor = ModeOwn"
    by (simp add: example_defs)
  have h8: "account exampleMonitor = Some ''+15550002222''"
    by (simp add: example_defs)
  have h9: "trim ''+15550002222'' \<noteq> []"
    by (simp add: trim_def js_whitespace_def)
  have h10: "targetAuthorUuid exampleReaction = Some ''123e4567-e89b-12d3-a456-426614174000''"
    by (simp add: example_defs)
  have h11: "targetAuthor exampleReaction = Some ''+15550002222''"
    by (simp add: example_defs)
  have h13: "normalizeE164 exampleCollaborators (trim ''+15550002222'')
             = normalizeE164 exampleCollaborators (trim ''+15550002222'')"
    by simp
  note run = C1_own_reaction_matches_phone_beside_uuid
               [OF h1 h2 h3 h4 h5 h6 h7 h8 h9 h10 h11 h9 h13, of emptyWorld]
  have t0: "trace emptyWorld = []"
    by (simp add: emptyWorld_def)
  from run have c1: "fst (handleEnvelope exampleMonitor exampleCollaborators ?env emptyWorld)
                     = Returned"
    by blast
  from run t0
  have c2: "length (filter isEnqueue (trace (snd (handleEnvelope exampleMonitor
              exampleCollaborators ?env emptyWorld)))) = 1"
    by simp
  from h2 h3 h10 h11 h13 c1 c2 show ?thesis by blast
qed

text \<open>
  Claim C4. A reaction-only envelope whose reaction is marked as a removal leaves the
  world as it is, whatever the monitor's configuration, so in every reaction mode: no
  notification is enqueued (and nothing else happens either).
\<close>

theorem C4_reaction_removal_never_notifies:
  assumes "reactionMessage env = Some r" and "isRemove r = Some True"
    and "resolveDataMessage env = None"
  shows "handleEnvelope m ext env w = (Returned, w)"
  using assms
  by (simp add: handleEnvelope_def handleReaction_def split: option.splits)

text \<open>The removal of Ada's reaction, in mode \<^verbatim>\<open>all\<close>.\<close>

theorem C4_reaction_removal_never_notifies_witness:
  "reactionMessage (exampleEnvelope\<lparr>reactionMessage :=
       Some (exampleReaction\<lparr>isRemove := Some True\<rparr>)\<rparr>)
     = Some (exampleReaction\<lparr>isRemove := Some True\<rparr>)
   \<and> isRemove (exampleReaction\<lparr>isRemove := Some True\<rparr>) = Some True
   \<and> resolveDataMessage (exampleEnvelope\<lparr>reactionMessage :=
        Some (exampleReaction\<lparr>isRemove := Some True\<rparr>)\<rparr>) = None
   \<and> handleEnvelope (exampleMonitor\<lparr>reactionMode := ModeAll\<rparr>) exampleCollaborators
        (exampleEnvelope\<lparr>reactionMessage := Some (exampleReaction\<lparr>isRemove := Some True\<rparr>)\<rparr>)
        emptyWorld
      = (Returned, emptyWorld)"
proof -
  let ?r = "exampleReaction\<lparr>isRemove := Some True\<rparr>"
  let ?env = "exampleEnvelope\<lparr>reactionMessage := Some ?r\<rparr>"
  have h1: "reactionMessage ?env = Some ?r"
    by simp
  have h2: "isRemove ?r = Some True"
    by simp
  have h3: "resolveDataMessage ?env = None"
    by (simp add: example_defs resolveDataMessage_def)
  have c: "handleEnvelope (exampleMonitor\<lparr>reactionMode := ModeAll\<rparr>) exampleCollaborators
             ?env emptyWorld = (Returned, emptyWorld)"
    using h1 h2 h3 by (rule C4_reaction_removal_never_notifies)
  from h1 h2 h3 c show ?thesis by blast
qed

section \<open>Self-messages\<close>

text \<open>
  Claim C5. An envelope whose sender resolves to a phone identity whose E.164 form
  equals the normalized configured account is dropped with the world unchanged: no
  store read, no pairing upsert, no outbound message, no notification, no last-route
  update, no hand-over to the reply pipeline.
\<close>

theorem C5_self_message_dropped:
  assumes "resolveSignalSender ext env = Some (PhoneSender e)"
    and "account m = Some a" and "a \<noteq> []"
    and "e = normalizeE164 ext a"
  shows "handleEnvelope m ext env w = (Returned, w)"
  using assms
  by (simp add: handleEnvelope_def isSelfMessage_def)

text \<open>A message that arrives from the account's own number.\<close>

theorem C5_self_message_dropped_witness:
  "resolveSignalSender exampleCollaborators
      (exampleEnvelope\<lparr>sourceNumber := Some ''+1 555 000 2222'',
                        dataMessage := Some exampleDataMessage\<rparr>)
     = Some (PhoneSender ''+15550002222'')
   \<and> account exampleMonitor = Some ''+15550002222''
   \<and> ''+15550002222'' = normalizeE164 exampleCollaborators ''+15550002222''
   \<and> handleEnvelope exampleMonitor exampleCollaborators
        (exampleEnvelope\<lparr>sourceNumber := Some ''+1 555 000 2222'',
                          dataMessage := Some exampleDataMessage\<rparr>) emptyWorld
      = (Returned, emptyWorld)"
proof -
  let ?env = "exampleEnvelope\<lparr>sourceNumber := Some ''+1 555 000 2222'',
                               dataMessage := Some exampleDataMessage\<rparr>"
  have h1: "resolveSignalSender exampleCollaborators ?env = Some (PhoneSender ''+15550002222'')"
    by (simp add: example_defs trim_def js_whitespace_def)
  have h2: "account exampleMonitor = Some ''+15550002222''"
    by (simp add: example_defs)
  have h3: "''+15550002222'' \<noteq> []"
    by simp
  have h4: "''+15550002222'' = normalizeE164 exampleCollaborators ''+15550002222''"
    by (simp add: example_defs)
  have c: "handleEnvelope exampleMonitor exampleCollaborators ?env emptyWorld
           = (Returned, emptyWorld)"
    using h1 h2 h3 h4 by (rule C5_self_message_dropped)
  from h1 h2 h4 c show ?thesis by blast
qed

section \<open>How a run extends the trace\<close>

lemma extends_iff: "extends Q w w' \<longleftrightarrow> (\<exists>es. trace w' = trace w @ es \<and> list_all Q es)"
proof
  assume "extends Q w w'"
  then have prefix: "take (length (trace w)) (trace w') = trace w"
    and rest: "list_all Q (drop (length (trace w)) (trace w'))"
    by (simp_all add: extends_def newEffects_def)
  from prefix have "trace w' = trace w @ drop (length (trace w)) (trace w')"
    by (metis append_take_drop_id)
  with rest show "\<exists>es. trace w' = trace w @ es \<and> list_all Q es"
    by blast
next
  assume "\<exists>es. trace w' = trace w @ es \<and> list_all Q es"
  then show "extends Q w w'"
    by (auto simp: extends_def newEffects_def)
qed

lemma extends_refl [simp]: "extends Q w w"
  by (simp add: extends_iff)

lemma extends_emit: "extends Q w w' \<Longrightarrow> Q e \<Longrightarrow> extends Q w (emit e w')"
  by (auto simp: extends_iff)

lemma extends_perform: "extends Q w w' \<Longrightarrow> Q e \<Longrightarrow> extends Q w (snd (perform e f w'))"
  by (auto simp: extends_iff)

lemma extends_mono: "extends Q w w' \<Longrightarrow> (\<And>e. Q e \<Longrightarrow> Q' e) \<Longrightarrow> extends Q' w w'"
  by (auto simp: extends_iff list_all_iff)

lemma extends_filter:
  "extends Q w w' \<Longrightarrow> (\<And>e. Q e \<Longrightarrow> \<not> P e) \<Longrightarrow> filter P (trace w') = filter P (trace w)"
  by (auto simp: extends_iff list_all_iff)

lemma messageEffect_not_enqueue: "messageEffect flag e \<Longrightarrow> \<not> isEnqueue e"
  by (cases e) simp_all

lemma messageEffect_not_upsert: "messageEffect flag e \<Longrightarrow> \<not> isUpsert e"
  by (cases e) simp_all

lemma messageEffect_not_send: "messageEffect flag e \<Longrightarrow> \<not> isSend e"
  by (cases e) simp_all

lemma dispatched_append [simp]: "dispatched (xs @ ys) = dispatched xs @ dispatched ys"
  by (induction xs rule: dispatched.induct) simp_all

lemma dispatched_messageEffect:
  "list_all (messageEffect flag) es \<Longrightarrow>
   list_all (\<lambda>c. CommandAuthorized c = flag) (dispatched es)"
  by (induction es rule: dispatched.induct) simp_all

subsection \<open>The conversational path records message effects only\<close>

lemma fetchAttachment_extends:
  "extends (messageEffect flag) w0 w \<Longrightarrow>
   extends (messageEffect flag) w0
     (snd (fetchAttachment ext url acct att sender gId maxBytes w))"
  by (simp add: fetchAttachment_def Let_def extends_perform split: sum.splits)

lemma fetchFirstAttachment_extends:
  "extends (messageEffect flag) w0 w \<Longrightarrow>
   extends (messageEffect flag) w0 (snd (fetchFirstAttachment m ext dm rcpt gId w))"
  by (auto simp: fetchFirstAttachment_def Let_def split: sum.splits option.splits
           intro!: extends_emit fetchAttachment_extends)

lemma CommandAuthorized_buildCtxPayload [simp]:
  "CommandAuthorized (buildCtxPayload m ext env sender dm mp mt body flag) = flag"
  by (simp add: buildCtxPayload_def Let_def)

lemma dispatchMessage_extends:
  "extends (messageEffect flag) w0 w \<Longrightarrow> CommandAuthorized c = flag \<Longrightarrow>
   extends (messageEffect flag) w0 (snd (dispatchMessage m ext sender dm c w))"
  by (auto simp: dispatchMessage_def Let_def split: sum.splits
           intro!: extends_emit extends_perform)

lemma processMessage_extends:
  "extends (messageEffect flag) w0 w \<Longrightarrow>
   extends (messageEffect flag) w0 (snd (processMessage m ext env sender dm flag w))"
  by (auto simp: processMessage_def Let_def
           intro!: dispatchMessage_extends fetchFirstAttachment_extends)

lemma requestPairing_no_enqueue:
  "extends (\<lambda>e. \<not> isEnqueue e) w0 w \<Longrightarrow>
   extends (\<lambda>e. \<not> isEnqueue e) w0 (snd (requestPairing ext env sender rcpt w))"
  by (auto simp: requestPairing_def Let_def split: sum.splits
           intro!: extends_emit extends_perform)

lemma processMessage_no_enqueue:
  assumes "extends (\<lambda>e. \<not> isEnqueue e) w0 w"
  shows "extends (\<lambda>e. \<not> isEnqueue e) w0 (snd (processMessage m ext env sender dm flag w))"
proof -
  have "extends (messageEffect flag) w (snd (processMessage m ext env sender dm flag w))"
    by (rule processMessage_extends) simp
  then have "extends (\<lambda>e. \<not> isEnqueue e) w (snd (processMessage m ext env sender dm flag w))"
    by (rule extends_mono) (rule messageEffect_not_enqueue)
  with assms show ?thesis
    by (auto simp: extends_iff)
qed

lemma applyAccessPolicy_no_enqueue:
  "extends (\<lambda>e. \<not> isEnqueue e) w0 w \<Longrightarrow>
   extends (\<lambda>e. \<not> isEnqueue e) w0 (snd (applyAccessPolicy m ext env sender dm store w))"
  by (auto simp: applyAccessPolicy_def Let_def
           intro!: extends_emit requestPairing_no_enqueue processMessage_no_enqueue)

lemma handleMessage_no_enqueue:
  "extends (\<lambda>e. \<not> isEnqueue e) w (snd (handleMessage m ext env sender dm w))"
proof -
  have "extends (\<lambda>e. \<not> isEnqueue e) w (snd (readStoreAllowFrom ext w))"
    by (simp add: extends_iff)
  then show ?thesis
    by (auto simp: handleMessage_def Let_def intro!: applyAccessPolicy_no_enqueue)
qed

section \<open>Reaction and message in one envelope\<close>

text \<open>
  Claim C2. When an envelope carries a reaction and also a conversational message
  (its own \<^verbatim>\<open>dataMessage\<close> or the one of its \<^verbatim>\<open>editMessage\<close>), the handler
  enqueues no notification: the enqueue calls of the trace stay as they were. An
  envelope that passes the guards (it is no sync echo, its sender resolves and is not
  the monitor's own account) is handled by the conversational path, and by it alone:
  the run is the run of \<open>handleMessage\<close>. An envelope that the guards stop is dropped
  with the world unchanged.
\<close>

theorem C2_reaction_dropped_beside_message:
  assumes "reactionMessage env = Some r" and "resolveDataMessage env = Some dm"
  shows "filter isEnqueue (trace (snd (handleEnvelope m ext env w))) = filter isEnqueue (trace w)
       \<and> (\<not> syncMessage env \<and> resolveSignalSender ext env = Some sender
            \<and> \<not> isSelfMessage m ext sender
          \<longrightarrow> handleEnvelope m ext env w = handleMessage m ext env sender dm w)
       \<and> (syncMessage env \<or> resolveSignalSender ext env = None
            \<or> (\<exists>s. resolveSignalSender ext env = Some s \<and> isSelfMessage m ext s)
          \<longrightarrow> handleEnvelope m ext env w = (Returned, w))"
proof (intro conjI impI)
  have quiet: "filter isEnqueue (trace (snd (handleMessage m ext env s dm w)))
               = filter isEnqueue (trace w)" for s
    by (rule extends_filter [OF handleMessage_no_enqueue]) simp
  have path: "handleEnvelope m ext env w = (Returned, w)
        \<or> (\<exists>s. handleEnvelope m ext env w = handleMessage m ext env s dm w)"
    using assms by (auto simp: handleEnvelope_def split: option.splits)
  with quiet
  show "filter isEnqueue (trace (snd (handleEnvelope m ext env w))) = filter isEnqueue (trace w)"
    by auto
next
  assume "\<not> syncMessage env \<and> resolveSignalSender ext env = Some sender
          \<and> \<not> isSelfMessage m ext sender"
  then show "handleEnvelope m ext env w = handleMessage m ext env sender dm w"
    using assms by (simp add: handleEnvelope_def)
next
  assume "syncMessage env \<or> resolveSignalSender ext env = None
          \<or> (\<exists>s. resolveSignalSender ext env = Some s \<and> isSelfMessage m ext s)"
  then show "handleEnvelope m ext env w = (Returned, w)"
    by (auto simp: handleEnvelope_def)
qed

text \<open>
  The envelope of the test "processes messages when reaction metadata is present",
  with the reaction that is notified when it comes alone: the allow-list store is
  read, the last route is updated and the message goes to the reply pipeline, and
  nothing is enqueued. The same envelope marked as a sync echo is dropped.
\<close>

theorem C2_reaction_dropped_beside_message_witness:
  "reactionMessage (helloEnvelope\<lparr>reactionMessage := Some exampleReaction\<rparr>)
     = Some exampleReaction
   \<and> resolveDataMessage (helloEnvelope\<lparr>reactionMessage := Some exampleReaction\<rparr>)
     = Some exampleDataMessage
   \<and> resolveSignalSender exampleCollaborators
        (helloEnvelope\<lparr>reactionMessage := Some exampleReaction\<rparr>)
     = Some (PhoneSender ''+15550001111'')
   \<and> \<not> isSelfMessage exampleMonitor exampleCollaborators (PhoneSender ''+15550001111'')
   \<and> handleEnvelope exampleMonitor exampleCollaborators
        (helloEnvelope\<lparr>reactionMessage := Some exampleReaction\<rparr>) emptyWorld
     = handleMessage exampleMonitor exampleCollaborators
        (helloEnvelope\<lparr>reactionMessage := Some exampleReaction\<rparr>)
        (PhoneSender ''+15550001111'') exampleDataMessage emptyWorld
   \<and> trace (snd (handleEnvelope exampleMonitor exampleCollaborators
        (helloEnvelope\<lparr>reactionMessage := Some exampleReaction\<rparr>) emptyWorld))
     = [ReadProviderAllowFromStore ''signal'',
        UpdateLastRoute ''/tmp/clawdbot-sessions.json'' ''main'' ''signal'' ''+15550001111''
          ''default'',
        DispatchReplyFromConfig
          \<lparr>Body = ''[Signal Ada id:+15550001111] hello'',
           From = ''signal:+15550001111'', To = ''signal:+15550001111'',
           SessionKey = ''signal:dm:+15550001111'', AccountId = ''default'',
           ChatType = ''direct'', GroupSubject = None, SenderName = ''Ada'',
           SenderId = ''+15550001111'', Provider = ''signal'', Surface = ''signal'',
           MessageSid = Some ''1'', Timestamp = Some 1, MediaPath = None, MediaType = None,
           MediaUrl = None, CommandAuthorized = True, OriginatingChannel = ''signal'',
           OriginatingTo = ''signal:+15550001111''\<rparr>
          (Some ''PFX'') None]
   \<and> filter isEnqueue (trace (snd (handleEnvelope exampleMonitor exampleCollaborators
        (helloEnvelope\<lparr>reactionMessage := Some exampleReaction\<rparr>) emptyWorld))) = []
   \<and> handleEnvelope exampleMonitor exampleCollaborators
        (helloEnvelope\<lparr>reactionMessage := Some exampleReaction, syncMessage := True\<rparr>)
        emptyWorld
     = (Returned, emptyWorld)"
proof -
  let ?env = "helloEnvelope\<lparr>reactionMessage := Some exampleReaction\<rparr>"
  let ?echo = "helloEnvelope\<lparr>reactionMessage := Some exampleReaction, syncMessage := True\<rparr>"
  let ?sender = "PhoneSender ''+15550001111''"
  have h1: "reactionMessage ?env = Some exampleReaction"
    "reactionMessage ?echo = Some exampleReaction"
    by simp_all
  have h2: "resolveDataMessage ?env = Some exampleDataMessage"
    "resolveDataMessage ?echo = Some exampleDataMessage"
    by (simp_all add: example_defs resolveDataMessage_def)
  have g1: "\<not> syncMessage ?env"
    by (simp add: example_defs)
  have g2: "resolveSignalSender exampleCollaborators ?env = Some ?sender"
    by (simp add: example_defs trim_def js_whitespace_def)
  have g3: "\<not> isSelfMessage exampleMonitor exampleCollaborators ?sender"
    by (simp add: example_defs isSelfMessage_def)
  have g4: "syncMessage ?echo"
    by simp
  have t0: "trace emptyWorld = []"
    by (simp add: emptyWorld_def)
  note run = C2_reaction_dropped_beside_message
               [OF h1(1) h2(1), of exampleMonitor exampleCollaborators emptyWorld ?sender]
  note echo = C2_reaction_dropped_beside_message
                [OF h1(2) h2(2), of exampleMonitor exampleCollaborators emptyWorld ?sender]
  from run g1 g2 g3
  have c1: "handleEnvelope exampleMonitor exampleCollaborators ?env emptyWorld
            = handleMessage exampleMonitor exampleCollaborators ?env ?sender
                exampleDataMessage emptyWorld"
    by blast
  have "trace (snd (handleMessage exampleMonitor exampleCollaborators ?env ?sender
                 exampleDataMessage emptyWorld))
     = [ReadProviderAllowFromStore ''signal'',
        UpdateLastRoute ''/tmp/clawdbot-sessions.json'' ''main'' ''signal'' ''+15550001111''
          ''default'',
        DispatchReplyFromConfig
          \<lparr>Body = ''[Signal Ada id:+15550001111] hello'',
           From = ''signal:+15550001111'', To = ''signal:+15550001111'',
           SessionKey = ''signal:dm:+15550001111'', AccountId = ''default'',
           ChatType = ''direct'', GroupSubject = None, SenderName = ''Ada'',
           SenderId = ''+15550001111'', Provider = ''signal'', Surface = ''signal'',
           MessageSid = Some ''1'', Timestamp = Some 1, MediaPath = None, MediaType = None,
           MediaUrl = None, CommandAuthorized = True, OriginatingChannel = ''signal'',
           OriginatingTo = ''signal:+15550001111''\<rparr>
          (Some ''PFX'') None]"
    by (simp add: model_defs example_defs)
  then have c2: "trace (snd (handleEnvelope exampleMonitor exampleCollaborators ?env
                   emptyWorld))
     = [ReadProviderAllowFromStore ''signal'',
        UpdateLastRoute ''/tmp/clawdbot-sessions.json'' ''main'' ''signal'' ''+15550001111''
          ''default'',
        DispatchReplyFromConfig
          \<lparr>Body = ''[Signal Ada id:+15550001111] hello'',
           From = ''signal:+15550001111'', To = ''signal:+15550001111'',
           SessionKey = ''signal:dm:+15550001111'', AccountId = ''default'',
           ChatType = ''direct'', GroupSubject = None, SenderName = ''Ada'',
           SenderId = ''+15550001111'', Provider = ''signal'', Surface = ''signal'',
           MessageSid = Some ''1'', Timestamp = Some 1, MediaPath = None, MediaType = None,
           MediaUrl = None, CommandAuthorized = True, OriginatingChannel = ''signal'',
           OriginatingTo = ''signal:+15550001111''\<rparr>
          (Some ''PFX'') None]"
    by (simp only: c1)
  from run
  have "filter isEnqueue (trace (snd (handleEnvelope exampleMonitor exampleCollaborators
          ?env emptyWorld))) = filter isEnqueue (trace emptyWorld)"
    by blast
  then have c3: "filter isEnqueue (trace (snd (handleEnvelope exampleMonitor
                   exampleCollaborators ?env emptyWorld))) = []"
    by (simp only: t0 filter.simps)
  from echo g4
  have c4: "handleEnvelope exampleMonitor exampleCollaborators ?echo emptyWorld
            = (Returned, emptyWorld)"
    by blast
  from h1(1) h2(1) g2 g3 c1 c2 c3 c4 show ?thesis by blast
qed

section \<open>Pairing\<close>

lemma requestPairing_sends:
  assumes "fst (upsertProviderPairingRequest ext (formatSignalSenderId ext sender)
                  (sourceName env) (extState w)) = Inr (code, created)"
  shows "fst (requestPairing ext env sender rcpt w) = Returned"
    and "filter isSend (trace (snd (requestPairing ext env sender rcpt w)))
         = filter isSend (trace w)
           @ (if created
              then [SendMessageSignal (''signal:'' @ rcpt)
                      (buildPairingReply ext (formatSignalPairingIdLine ext sender) code)]
              else [])"
    and "filter isUpsert (trace (snd (requestPairing ext env sender rcpt w)))
         = filter isUpsert (trace w)
           @ [UpsertProviderPairingRequest ''signal'' (formatSignalSenderId ext sender)
                (sourceName env)]"
  using assms
  by (simp_all add: requestPairing_def Let_def split: sum.splits)

lemma applyAccessPolicy_pairing:
  assumes "\<not> truthy (Option.bind (groupInfo dm) groupId)" and "dmPolicy m = DmPairing"
    and "\<not> isSignalSenderAllowed ext sender (effectiveDmAllow m store)"
  shows "applyAccessPolicy m ext env sender dm store w
         = requestPairing ext env sender (resolveSignalRecipient ext sender) w"
  using assms by (simp add: applyAccessPolicy_def Let_def)

text \<open>
  Claim C3. A direct message that reaches the access policy under
  \<^verbatim>\<open>dmPolicy = pairing\<close> from a sender whom the effective allow-list does not
  allow: the handler calls the pairing-store upsert once and returns; when the upsert
  answers \<open>(code, created)\<close>, the outbound messages of the run are the one pairing reply
  if \<open>created\<close> holds and none otherwise. So a later message of the same sender whose
  upsert answers \<^verbatim>\<open>created = false\<close> sends nothing.
\<close>

theorem C3_pairing_reply_iff_created:
  assumes "\<not> syncMessage env"
    and "resolveSignalSender ext env = Some sender"
    and "\<not> isSelfMessage m ext sender"
    and "resolveDataMessage env = Some dm"
    and "resolveSignalRecipient ext sender \<noteq> []"
    and "\<not> truthy (Option.bind (groupInfo dm) groupId)"
    and "dmPolicy m = DmPairing"
    and "\<not> isSignalSenderAllowed ext sender
            (effectiveDmAllow m (fst (readStoreAllowFrom ext w)))"
    and "fst (upsertProviderPairingRequest ext (formatSignalSenderId ext sender) (sourceName env)
                (extState (snd (readStoreAllowFrom ext w)))) = Inr (code, created)"
  shows "fst (handleEnvelope m ext env w) = Returned
       \<and> filter isSend (trace (snd (handleEnvelope m ext env w)))
         = filter isSend (trace w)
           @ (if created
              then [SendMessageSignal (''signal:'' @ resolveSignalRecipient ext sender)
                      (buildPairingReply ext (formatSignalPairingIdLine ext sender) code)]
              else [])
       \<and> filter isUpsert (trace (snd (handleEnvelope m ext env w)))
         = filter isUpsert (trace w)
           @ [UpsertProviderPairingRequest ''signal'' (formatSignalSenderId ext sender)
                (sourceName env)]"
proof -
  let ?w1 = "snd (readStoreAllowFrom ext w)"
  have run: "handleEnvelope m ext env w
             = requestPairing ext env sender (resolveSignalRecipient ext sender) ?w1"
    using assms(1-8) by (simp add: handleEnvelope_message applyAccessPolicy_pairing)
  show ?thesis
    unfolding run using requestPairing_sends [OF assms(9)] by simp
qed

text \<open>
  The two messages of the test "does not resend pairing code when a request is already
  pending": the first upsert creates the request, the second finds it pending, and
  after both runs one pairing reply has been sent.
\<close>

theorem C3_pairing_reply_iff_created_witness:
  "fst (upsertProviderPairingRequest exampleCollaborators ''+15550001111'' (Some ''Ada'')
          (extState (snd (readStoreAllowFrom exampleCollaborators emptyWorld))))
     = Inr (''PAIRCODE'', True)
   \<and> fst (upsertProviderPairingRequest exampleCollaborators ''+15550001111'' (Some ''Ada'')
          (extState (snd (readStoreAllowFrom exampleCollaborators afterFirstHello))))
     = Inr (''PAIRCODE'', False)
   \<and> filter isSend (trace afterFirstHello)
     = [SendMessageSignal ''signal:+15550001111''
          ''Your Signal sender id: +15550001111 Pairing code: PAIRCODE'']
   \<and> filter isSend (trace (snd (handleEnvelope pairingMonitor exampleCollaborators
          helloEnvelope afterFirstHello)))
     = [SendMessageSignal ''signal:+15550001111''
          ''Your Signal sender id: +15550001111 Pairing code: PAIRCODE'']"
proof -
  let ?sender = "PhoneSender ''+15550001111''"
  have h1: "\<not> syncMessage helloEnvelope"
    by (simp add: example_defs)
  have h2: "resolveSignalSender exampleCollaborators helloEnvelope = Some ?sender"
    by (simp add: example_defs trim_def js_whitespace_def)
  have h3: "\<not> isSelfMessage pairingMonitor exampleCollaborators ?sender"
    by (simp add: example_defs isSelfMessage_def)
  have h4: "resolveDataMessage helloEnvelope = Some exampleDataMessage"
    by (simp add: example_defs resolveDataMessage_def)
  have h5: "resolveSignalRecipient exampleCollaborators ?sender \<noteq> []"
    by (simp add: example_defs)
  have h6: "\<not> truthy (Option.bind (groupInfo exampleDataMessage) groupId)"
    by (simp add: example_defs)
  have h7: "dmPolicy pairingMonitor = DmPairing"
    by (simp add: example_defs)
  have h8: "\<not> isSignalSenderAllowed exampleCollaborators ?sender
              (effectiveDmAllow pairingMonitor (fst (readStoreAllowFrom exampleCollaborators w)))"
    for w
    by (simp add: example_defs effectiveDmAllow_def readStoreAllowFrom_def Let_def)
  have state: "extState (snd (readStoreAllowFrom exampleCollaborators w)) = extState w" for w
    by (simp add: example_defs readStoreAllowFrom_def Let_def)
  have first: "extState afterFirstHello = [''+15550001111'']"
    by (simp add: afterFirstHello_def model_defs example_defs)
  have h9a: "fst (upsertProviderPairingRequest exampleCollaborators
               (formatSignalSenderId exampleCollaborators ?sender) (sourceName helloEnvelope)
               (extState (snd (readStoreAllowFrom exampleCollaborators emptyWorld))))
             = Inr (''PAIRCODE'', True)"
    unfolding state by (simp add: example_defs)
  have h9b: "fst (upsertProviderPairingRequest exampleCollaborators
               (formatSignalSenderId exampleCollaborators ?sender) (sourceName helloEnvelope)
               (extState (snd (readStoreAllowFrom exampleCollaborators afterFirstHello))))
             = Inr (''PAIRCODE'', False)"
    unfolding state first by (simp add: example_defs)
  have ids: "formatSignalSenderId exampleCollaborators ?sender = ''+15550001111''"
    "sourceName helloEnvelope = Some ''Ada''"
    "resolveSignalRecipient exampleCollaborators ?sender = ''+15550001111''"
    "buildPairingReply exampleCollaborators
       (formatSignalPairingIdLine exampleCollaborators ?sender) ''PAIRCODE''
     = ''Your Signal sender id: +15550001111 Pairing code: PAIRCODE''"
    by (simp_all add: example_defs)
  have t0: "trace emptyWorld = []"
    by (simp add: emptyWorld_def)
  from C3_pairing_reply_iff_created [OF h1 h2 h3 h4 h5 h6 h7 h8 h9a]
  have c1: "filter isSend (trace afterFirstHello)
            = [SendMessageSignal ''signal:+15550001111''
                 ''Your Signal sender id: +15550001111 Pairing code: PAIRCODE'']"
    by (simp add: afterFirstHello_def ids t0)
  from C3_pairing_reply_iff_created [OF h1 h2 h3 h4 h5 h6 h7 h8 h9b]
  have c2: "filter isSend (trace (snd (handleEnvelope pairingMonitor exampleCollaborators
              helloEnvelope afterFirstHello)))
            = [SendMessageSignal ''signal:+15550001111''
                 ''Your Signal sender id: +15550001111 Pairing code: PAIRCODE'']"
    by (simp add: c1)
  from h9a h9b c1 c2 show ?thesis
    by (simp only: ids)
qed

section \<open>Allow-lists\<close>

lemma applyAccessPolicy_dm_allowed:
  assumes "\<not> truthy (Option.bind (groupInfo dm) groupId)" and "dmPolicy m = DmPairing"
    and "isSignalSenderAllowed ext sender (effectiveDmAllow m store)"
  shows "applyAccessPolicy m ext env sender dm store w
         = processMessage m ext env sender dm True w"
  using assms by (simp add: applyAccessPolicy_def Let_def commandAuthorizedFlag_def)

text \<open>
  Claim C6. The effective allow-list of direct messages holds exactly the entries of
  the static list and of the persisted list. A direct message that reaches the access
  policy under \<^verbatim>\<open>dmPolicy = pairing\<close> from a sender whom that list allows is let
  through, authorized for commands, and the run records no pairing-store upsert and no
  outbound message of the handler (so no pairing code is issued or sent).
\<close>

theorem C6_allowed_sender_never_paired:
  assumes "\<not> syncMessage env"
    and "resolveSignalSender ext env = Some sender"
    and "\<not> isSelfMessage m ext sender"
    and "resolveDataMessage env = Some dm"
    and "resolveSignalRecipient ext sender \<noteq> []"
    and "\<not> truthy (Option.bind (groupInfo dm) groupId)"
    and "dmPolicy m = DmPairing"
    and "isSignalSenderAllowed ext sender
           (effectiveDmAllow m (fst (readStoreAllowFrom ext w)))"
  shows "set (effectiveDmAllow m (fst (readStoreAllowFrom ext w)))
           = set (allowFrom m) \<union> set (fst (readStoreAllowFrom ext w))
       \<and> handleEnvelope m ext env w
           = processMessage m ext env sender dm True (snd (readStoreAllowFrom ext w))
       \<and> filter isUpsert (trace (snd (handleEnvelope m ext env w))) = filter isUpsert (trace w)
       \<and> filter isSend (trace (snd (handleEnvelope m ext env w))) = filter isSend (trace w)"
proof -
  let ?w1 = "snd (readStoreAllowFrom ext w)"
  let ?w' = "snd (processMessage m ext env sender dm True ?w1)"
  have run: "handleEnvelope m ext env w = processMessage m ext env sender dm True ?w1"
    using assms by (simp add: handleEnvelope_message applyAccessPolicy_dm_allowed)
  have ext: "extends (messageEffect True) ?w1 ?w'"
    by (rule processMessage_extends) simp
  have "filter isUpsert (trace ?w') = filter isUpsert (trace ?w1)"
    by (rule extends_filter [OF ext]) (rule messageEffect_not_upsert)
  moreover have "filter isSend (trace ?w') = filter isSend (trace ?w1)"
    by (rule extends_filter [OF ext]) (rule messageEffect_not_send)
  ultimately show ?thesis
    by (simp add: run effectiveDmAllow_def)
qed

text \<open>
  Ada's message under the pairing policy when her number is on the static allow-list:
  the message reaches the reply pipeline.
\<close>

theorem C6_allowed_sender_never_paired_witness:
  "dmPolicy (pairingMonitor\<lparr>allowFrom := [''+15550001111'']\<rparr>) = DmPairing
   \<and> isSignalSenderAllowed exampleCollaborators (PhoneSender ''+15550001111'')
       (effectiveDmAllow (pairingMonitor\<lparr>allowFrom := [''+15550001111'']\<rparr>)
          (fst (readStoreAllowFrom exampleCollaborators emptyWorld)))
   \<and> filter isUpsert (trace (snd (handleEnvelope
         (pairingMonitor\<lparr>allowFrom := [''+15550001111'']\<rparr>) exampleCollaborators
         helloEnvelope emptyWorld))) = []
   \<and> filter isSend (trace (snd (handleEnvelope
         (pairingMonitor\<lparr>allowFrom := [''+15550001111'']\<rparr>) exampleCollaborators
         helloEnvelope emptyWorld))) = []
   \<and> map CommandAuthorized (dispatched (trace (snd (handleEnvelope
         (pairingMonitor\<lparr>allowFrom := [''+15550001111'']\<rparr>) exampleCollaborators
         helloEnvelope emptyWorld)))) = [True]"
proof -
  let ?m = "pairingMonitor\<lparr>allowFrom := [''+15550001111'']\<rparr>"
  let ?sender = "PhoneSender ''+15550001111''"
  have h1: "\<not> syncMessage helloEnvelope"
    by (simp add: example_defs)
  have h2: "resolveSignalSender exampleCollaborators helloEnvelope = Some ?sender"
    by (simp add: example_defs trim_def js_whitespace_def)
  have h3: "\<not> isSelfMessage ?m exampleCollaborators ?sender"
    by (simp add: example_defs isSelfMessage_def)
  have h4: "resolveDataMessage helloEnvelope = Some exampleDataMessage"
    by (simp add: example_defs resolveDataMessage_def)
  have h5: "resolveSignalRecipient exampleCollaborators ?sender \<noteq> []"
    by (simp add: example_defs)
  have h6: "\<not> truthy (Option.bind (groupInfo exampleDataMessage) groupId)"
    by (simp add: example_defs)
  have h7: "dmPolicy ?m = DmPairing"
    by (simp add: example_defs)
  have h8: "isSignalSenderAllowed exampleCollaborators ?sender
              (effectiveDmAllow ?m (fst (readStoreAllowFrom exampleCollaborators emptyWorld)))"
    by (simp add: example_defs effectiveDmAllow_def readStoreAllowFrom_def Let_def)
  have t0: "trace emptyWorld = []"
    by (simp add: emptyWorld_def)
  note run = C6_allowed_sender_never_paired [OF h1 h2 h3 h4 h5 h6 h7 h8]
  from run have "filter isUpsert (trace (snd (handleEnvelope ?m exampleCollaborators
                   helloEnvelope emptyWorld))) = filter isUpsert (trace emptyWorld)"
    by blast
  then have c1: "filter isUpsert (trace (snd (handleEnvelope ?m exampleCollaborators
                   helloEnvelope emptyWorld))) = []"
    by (simp only: t0 filter.simps)
  from run have "filter isSend (trace (snd (handleEnvelope ?m exampleCollaborators
                   helloEnvelope emptyWorld))) = filter isSend (trace emptyWorld)"
    by blast
  then have c2: "filter isSend (trace (snd (handleEnvelope ?m exampleCollaborators
                   helloEnvelope emptyWorld))) = []"
    by (simp only: t0 filter.simps)
  have c3: "map CommandAuthorized (dispatched (trace (snd (handleEnvelope ?m
              exampleCollaborators helloEnvelope emptyWorld)))) = [True]"
    by (simp add: model_defs example_defs)
  from h7 h8 c1 c2 c3 show ?thesis by blast
qed

lemma applyAccessPolicy_group_pass:
  assumes "truthy (Option.bind (groupInfo dm) groupId)"
    and "groupPolicy m \<noteq> GroupDisabled"
    and "groupPolicy m = GroupAllowlist \<Longrightarrow>
           effectiveGroupAllow m store \<noteq> []
           \<and> isSignalSenderAllowed ext sender (effectiveGroupAllow m store)"
  shows "applyAccessPolicy m ext env sender dm store w
         = processMessage m ext env sender dm
             (if effectiveGroupAllow m store \<noteq> []
              then isSignalSenderAllowed ext sender (effectiveGroupAllow m store) else True) w"
  using assms by (auto simp: applyAccessPolicy_def Let_def commandAuthorizedFlag_def)

lemma applyAccessPolicy_group_empty_allowlist:
  assumes "truthy (Option.bind (groupInfo dm) groupId)"
    and "groupPolicy m = GroupAllowlist" and "effectiveGroupAllow m store = []"
  shows "applyAccessPolicy m ext env sender dm store w
         = (Returned, emit (LogVerbose
              ''Blocked signal group message (groupPolicy: allowlist, no groupAllowFrom)'') w)"
  using assms by (simp add: applyAccessPolicy_def Let_def)

text \<open>
  Claim C7. For a group message that reaches the access policy, let \<open>allow\<close> be the
  effective group allow-list and \<open>flag\<close> the sender's membership in \<open>allow\<close> when
  \<open>allow\<close> is not empty, and true when it is empty. If the message passes the group
  read checks (the group policy is not \<^verbatim>\<open>disabled\<close>, and under \<^verbatim>\<open>allowlist\<close> the
  list is not empty and allows the sender), the handler goes on with
  \<^verbatim>\<open>commandAuthorized = flag\<close>, and every context it hands to the reply pipeline in
  this run carries \<^verbatim>\<open>CommandAuthorized = flag\<close>. With an empty list the flag is true
  under a policy other than \<^verbatim>\<open>allowlist\<close>, whereas under \<^verbatim>\<open>allowlist\<close> the
  message is blocked with a log line and nothing is handed over.
\<close>

theorem C7_group_command_authorized:
  assumes "\<not> syncMessage env"
    and "resolveSignalSender ext env = Some sender"
    and "\<not> isSelfMessage m ext sender"
    and "resolveDataMessage env = Some dm"
    and "resolveSignalRecipient ext sender \<noteq> []"
    and "truthy (Option.bind (groupInfo dm) groupId)"
    and "w1 = snd (readStoreAllowFrom ext w)"
    and "allow = effectiveGroupAllow m (fst (readStoreAllowFrom ext w))"
    and "flag = (if allow \<noteq> [] then isSignalSenderAllowed ext sender allow else True)"
  shows "(groupPolicy m \<noteq> GroupDisabled
          \<and> (groupPolicy m = GroupAllowlist
               \<longrightarrow> allow \<noteq> [] \<and> isSignalSenderAllowed ext sender allow)
          \<longrightarrow> handleEnvelope m ext env w = processMessage m ext env sender dm flag w1
              \<and> list_all (\<lambda>c. CommandAuthorized c = flag)
                   (dispatched (newEffects w (snd (handleEnvelope m ext env w)))))
       \<and> (groupPolicy m \<noteq> GroupAllowlist \<and> allow = [] \<longrightarrow> flag = True)
       \<and> (groupPolicy m = GroupAllowlist \<and> allow = []
          \<longrightarrow> handleEnvelope m ext env w
              = (Returned, emit (LogVerbose
                   ''Blocked signal group message (groupPolicy: allowlist, no groupAllowFrom)'')
                   w1))"
proof (intro conjI impI)
  assume pass: "groupPolicy m \<noteq> GroupDisabled
          \<and> (groupPolicy m = GroupAllowlist
               \<longrightarrow> allow \<noteq> [] \<and> isSignalSenderAllowed ext sender allow)"
  then show run: "handleEnvelope m ext env w = processMessage m ext env sender dm flag w1"
    using assms by (simp add: handleEnvelope_message applyAccessPolicy_group_pass)
  have "extends (messageEffect flag) w1 (snd (processMessage m ext env sender dm flag w1))"
    by (rule processMessage_extends) simp
  then obtain es
    where es: "trace (snd (processMessage m ext env sender dm flag w1)) = trace w1 @ es"
      "list_all (messageEffect flag) es"
    by (auto simp: extends_iff)
  have "newEffects w (snd (handleEnvelope m ext env w))
        = ReadProviderAllowFromStore ''signal'' # es"
    using es(1) by (simp add: run newEffects_def assms(7))
  then show "list_all (\<lambda>c. CommandAuthorized c = flag)
               (dispatched (newEffects w (snd (handleEnvelope m ext env w))))"
    using es(2) by (simp add: dispatched_messageEffect)
next
  assume "groupPolicy m \<noteq> GroupAllowlist \<and> allow = []"
  then show "flag = True"
    using assms(9) by simp
next
  assume "groupPolicy m = GroupAllowlist \<and> allow = []"
  then show "handleEnvelope m ext env w
             = (Returned, emit (LogVerbose
                  ''Blocked signal group message (groupPolicy: allowlist, no groupAllowFrom)'')
                  w1)"
    using assms by (simp add: handleEnvelope_message applyAccessPolicy_group_empty_allowlist)
qed

text \<open>
  Ada's message in a group with no group allow-list at all: under the policy
  \<^verbatim>\<open>open\<close> it reaches the reply pipeline authorized for commands, under
  \<^verbatim>\<open>allowlist\<close> it is blocked.
\<close>

theorem C7_group_command_authorized_witness:
  "truthy (Option.bind (groupInfo exampleGroupMessage) groupId)
   \<and> effectiveGroupAllow (exampleMonitor\<lparr>groupAllowFrom := []\<rparr>)
       (fst (readStoreAllowFrom exampleCollaborators emptyWorld)) = []
   \<and> groupPolicy (exampleMonitor\<lparr>groupAllowFrom := []\<rparr>) = GroupOpen
   \<and> list_all (\<lambda>c. CommandAuthorized c = True)
       (dispatched (newEffects emptyWorld (snd (handleEnvelope
          (exampleMonitor\<lparr>groupAllowFrom := []\<rparr>) exampleCollaborators groupEnvelope
          emptyWorld))))
   \<and> map CommandAuthorized (dispatched (newEffects emptyWorld (snd (handleEnvelope
          (exampleMonitor\<lparr>groupAllowFrom := []\<rparr>) exampleCollaborators groupEnvelope
          emptyWorld)))) = [True]
   \<and> groupPolicy (exampleMonitor\<lparr>groupAllowFrom := [], groupPolicy := GroupAllowlist\<rparr>)
       = GroupAllowlist
   \<and> handleEnvelope (exampleMonitor\<lparr>groupAllowFrom := [], groupPolicy := GroupAllowlist\<rparr>)
        exampleCollaborators groupEnvelope emptyWorld
      = (Returned, emit (LogVerbose
           ''Blocked signal group message (groupPolicy: allowlist, no groupAllowFrom)'')
           (snd (readStoreAllowFrom exampleCollaborators emptyWorld)))"
proof -
  let ?open = "exampleMonitor\<lparr>groupAllowFrom := []\<rparr>"
  let ?strict = "exampleMonitor\<lparr>groupAllowFrom := [], groupPolicy := GroupAllowlist\<rparr>"
  let ?sender = "PhoneSender ''+15550001111''"
  have h1: "\<not> syncMessage groupEnvelope"
    by (simp add: example_defs)
  have h2: "resolveSignalSender exampleCollaborators groupEnvelope = Some ?sender"
    by (simp add: example_defs trim_def js_whitespace_def)
  have h3: "\<not> isSelfMessage ?open exampleCollaborators ?sender"
    "\<not> isSelfMessage ?strict exampleCollaborators ?sender"
    by (simp_all add: example_defs isSelfMessage_def)
  have h4: "resolveDataMessage groupEnvelope = Some exampleGroupMessage"
    by (simp add: example_defs resolveDataMessage_def)
  have h5: "resolveSignalRecipient exampleCollaborators ?sender \<noteq> []"
    by (simp add: example_defs)
  have h6: "truthy (Option.bind (groupInfo exampleGroupMessage) groupId)"
    by (simp add: example_defs)
  have empty: "effectiveGroupAllow ?open
                 (fst (readStoreAllowFrom exampleCollaborators emptyWorld)) = []"
    "effectiveGroupAllow ?strict
                 (fst (readStoreAllowFrom exampleCollaborators emptyWorld)) = []"
    by (simp_all add: example_defs effectiveGroupAllow_def readStoreAllowFrom_def Let_def)
  have policy: "groupPolicy ?open = GroupOpen" "groupPolicy ?strict = GroupAllowlist"
    by (simp_all add: example_defs)
  have pass: "groupPolicy ?open \<noteq> GroupDisabled" "groupPolicy ?open \<noteq> GroupAllowlist"
    by (simp_all add: example_defs)
  have flag: "True = (if [] \<noteq> []
                      then isSignalSenderAllowed exampleCollaborators ?sender [] else True)"
    by simp
  note lenient = C7_group_command_authorized
                   [OF h1 h2 h3(1) h4 h5 h6 refl empty(1) [symmetric] flag]
  note strict = C7_group_command_authorized
                  [OF h1 h2 h3(2) h4 h5 h6 refl empty(2) [symmetric] flag]
  from lenient pass
  have c1: "list_all (\<lambda>c. CommandAuthorized c = True)
              (dispatched (newEffects emptyWorld (snd (handleEnvelope ?open
                 exampleCollaborators groupEnvelope emptyWorld))))"
    by blast
  have c2: "map CommandAuthorized (dispatched (newEffects emptyWorld (snd (handleEnvelope
              ?open exampleCollaborators groupEnvelope emptyWorld)))) = [True]"
    by (simp add: model_defs example_defs)
  from strict policy(2)
  have c3: "handleEnvelope ?strict exampleCollaborators groupEnvelope emptyWorld
            = (Returned, emit (LogVerbose
                 ''Blocked signal group message (groupPolicy: allowlist, no groupAllowFrom)'')
                 (snd (readStoreAllowFrom exampleCollaborators emptyWorld)))"
    by blast
  from h6 empty(1) policy c1 c2 c3 show ?thesis by blast
qed

section \<open>A failing allow-list store\<close>

text \<open>
  Claim C10. When a conversational message reaches the allow-list store read and the
  read rejects, the persisted list is taken to be empty, so the effective allow-lists
  are the static ones, and the handler goes on with the access policy on the empty
  persisted list, in the world in which only the read has been recorded: the rejection
  is neither thrown nor logged, and the message is not dropped on its account.
\<close>

theorem C10_store_read_failure_swallowed:
  assumes "\<not> syncMessage env"
    and "resolveSignalSender ext env = Some sender"
    and "\<not> isSelfMessage m ext sender"
    and "resolveDataMessage env = Some dm"
    and "resolveSignalRecipient ext sender \<noteq> []"
    and "fst (readProviderAllowFromStore ext (extState w)) = Inl err"
  shows "fst (readStoreAllowFrom ext w) = []
       \<and> effectiveDmAllow m (fst (readStoreAllowFrom ext w)) = allowFrom m
       \<and> effectiveGroupAllow m (fst (readStoreAllowFrom ext w)) = groupAllowFrom m
       \<and> handleEnvelope m ext env w
           = applyAccessPolicy m ext env sender dm []
               \<lparr>extState = snd (readProviderAllowFromStore ext (extState w)),
                trace = trace w @ [ReadProviderAllowFromStore ''signal'']\<rparr>"
proof -
  have store: "fst (readStoreAllowFrom ext w) = []"
    using assms(6) by (simp add: readStoreAllowFrom_def Let_def)
  have world: "snd (readStoreAllowFrom ext w)
               = \<lparr>extState = snd (readProviderAllowFromStore ext (extState w)),
                  trace = trace w @ [ReadProviderAllowFromStore ''signal'']\<rparr>"
    by (simp add: readStoreAllowFrom_def perform_def Let_def)
  show ?thesis
    using assms(1-5) store world
    by (simp add: handleEnvelope_message effectiveDmAllow_def effectiveGroupAllow_def)
qed

text \<open>
  Ada's message under the pairing policy, her number on the static allow-list, with a
  store whose read rejects: the message still reaches the reply pipeline.
\<close>

theorem C10_store_read_failure_swallowed_witness:
  "fst (readProviderAllowFromStore failingStoreCollaborators (extState emptyWorld))
     = Inl ''Error: ENOENT''
   \<and> effectiveDmAllow (pairingMonitor\<lparr>allowFrom := [''+15550001111'']\<rparr>)
       (fst (readStoreAllowFrom failingStoreCollaborators emptyWorld)) = [''+15550001111'']
   \<and> handleEnvelope (pairingMonitor\<lparr>allowFrom := [''+15550001111'']\<rparr>)
        failingStoreCollaborators helloEnvelope emptyWorld
      = applyAccessPolicy (pairingMonitor\<lparr>allowFrom := [''+15550001111'']\<rparr>)
          failingStoreCollaborators helloEnvelope (PhoneSender ''+15550001111'')
          exampleDataMessage []
          \<lparr>extState = snd (readProviderAllowFromStore failingStoreCollaborators
                             (extState emptyWorld)),
           trace = trace emptyWorld @ [ReadProviderAllowFromStore ''signal'']\<rparr>
   \<and> fst (handleEnvelope (pairingMonitor\<lparr>allowFrom := [''+15550001111'']\<rparr>)
        failingStoreCollaborators helloEnvelope emptyWorld) = Returned
   \<and> map CommandAuthorized (dispatched (trace (snd (handleEnvelope
        (pairingMonitor\<lparr>allowFrom := [''+15550001111'']\<rparr>) failingStoreCollaborators
        helloEnvelope emptyWorld)))) = [True]"
proof -
  let ?m = "pairingMonitor\<lparr>allowFrom := [''+15550001111'']\<rparr>"
  let ?sender = "PhoneSender ''+15550001111''"
  have h1: "\<not> syncMessage helloEnvelope"
    by (simp add: example_defs)
  have h2: "resolveSignalSender failingStoreCollaborators helloEnvelope = Some ?sender"
    by (simp add: example_defs trim_def js_whitespace_def)
  have h3: "\<not> isSelfMessage ?m failingStoreCollaborators ?sender"
    by (simp add: example_defs isSelfMessage_def)
  have h4: "resolveDataMessage helloEnvelope = Some exampleDataMessage"
    by (simp add: example_defs resolveDataMessage_def)
  have h5: "resolveSignalRecipient failingStoreCollaborators ?sender \<noteq> []"
    by (simp add: example_defs)
  have h6: "fst (readProviderAllowFromStore failingStoreCollaborators (extState emptyWorld))
            = Inl ''Error: ENOENT''"
    by (simp add: example_defs)
  have static: "allowFrom ?m = [''+15550001111'']"
    by (simp add: example_defs)
  note run = C10_store_read_failure_swallowed [OF h1 h2 h3 h4 h5 h6]
  from run
  have "effectiveDmAllow ?m (fst (readStoreAllowFrom failingStoreCollaborators emptyWorld))
        = allowFrom ?m"
    by blast
  then have c1: "effectiveDmAllow ?m (fst (readStoreAllowFrom failingStoreCollaborators
                   emptyWorld)) = [''+15550001111'']"
    by (simp only: static)
  from run
  have c2: "handleEnvelope ?m failingStoreCollaborators helloEnvelope emptyWorld
      = applyAccessPolicy ?m failingStoreCollaborators helloEnvelope ?sender
          exampleDataMessage []
          \<lparr>extState = snd (readProviderAllowFromStore failingStoreCollaborators
                             (extState emptyWorld)),
           trace = trace emptyWorld @ [ReadProviderAllowFromStore ''signal'']\<rparr>"
    by blast
  have c3: "fst (handleEnvelope ?m failingStoreCollaborators helloEnvelope emptyWorld)
            = Returned"
    by (simp add: model_defs example_defs)
  have c4: "map CommandAuthorized (dispatched (trace (snd (handleEnvelope ?m
              failingStoreCollaborators helloEnvelope emptyWorld)))) = [True]"
    by (simp add: model_defs example_defs)
  from h6 c1 c2 c3 c4 show ?thesis by blast
qed

section \<open>Frames that do not parse\<close>

text \<open>
  Claim C8, as the code has it. For every frame whose data fails to parse as JSON the
  handler returns normally and so does its caller, without touching the external
  state: the frame is discarded, no exception leaves the handler, and the world that
  later frames meet differs at most by a log line. The failure is logged exactly when
  the parse is attempted, that is for a \<^verbatim>\<open>receive\<close> event with non-empty data; a
  frame with another event name or with empty data is discarded before the parse and
  without a log line.
\<close>

theorem C8_parse_failure_discards_frame:
  assumes "eventData event = Some d" and "JSON_parse ext d = Inl err"
  shows "handleEvent m ext event w
         = (Returned,
            if eventName event = Some ''receive'' \<and> d \<noteq> []
            then emit (RuntimeError (''failed to parse event: '' @ err)) w else w)
       \<and> onEvent m ext event w
         = (if eventName event = Some ''receive'' \<and> d \<noteq> []
            then emit (RuntimeError (''failed to parse event: '' @ err)) w else w)
       \<and> extState (onEvent m ext event w) = extState w"
  using assms by (auto simp: handleEvent_def onEvent_def)

text \<open>A \<^verbatim>\<open>receive\<close> frame whose data is not JSON: one log line, nothing else.\<close>

theorem C8_parse_failure_discards_frame_witness:
  "eventData \<lparr>eventName = Some ''receive'', eventData = Some ''not json''\<rparr> = Some ''not json''
   \<and> JSON_parse exampleCollaborators ''not json'' = Inl ''SyntaxError: Unexpected token''
   \<and> onEvent exampleMonitor exampleCollaborators
        \<lparr>eventName = Some ''receive'', eventData = Some ''not json''\<rparr> emptyWorld
      = \<lparr>extState = [],
         trace = [RuntimeError ''failed to parse event: SyntaxError: Unexpected token'']\<rparr>"
proof -
  let ?event = "\<lparr>eventName = Some ''receive'', eventData = Some ''not json''\<rparr>"
  have h1: "eventData ?event = Some ''not json''"
    by simp
  have h2: "JSON_parse exampleCollaborators ''not json'' = Inl ''SyntaxError: Unexpected token''"
    by (simp add: example_defs)
  from C8_parse_failure_discards_frame [OF h1 h2, of exampleMonitor emptyWorld]
  have "onEvent exampleMonitor exampleCollaborators ?event emptyWorld
        = (if eventName ?event = Some ''receive'' \<and> ''not json'' \<noteq> []
           then emit (RuntimeError (''failed to parse event: ''
                  @ ''SyntaxError: Unexpected token'')) emptyWorld
           else emptyWorld)"
    by blast
  then have c: "onEvent exampleMonitor exampleCollaborators ?event emptyWorld
      = \<lparr>extState = [],
         trace = [RuntimeError ''failed to parse event: SyntaxError: Unexpected token'']\<rparr>"
    by (simp add: emit_def emptyWorld_def)
  from h1 h2 c show ?thesis by blast
qed

text \<open>
  Claim C8 as stated asks for the log line on every frame whose data does not parse.
  A frame named \<^verbatim>\<open>message\<close> with data that is not JSON, and a \<^verbatim>\<open>receive\<close>
  frame with empty data (which \<^verbatim>\<open>JSON.parse\<close> rejects), are discarded with an
  empty trace: nothing is logged.
\<close>

theorem C8_unparsed_frame_not_logged_counterexample:
  "JSON_parse exampleCollaborators ''not json'' = Inl ''SyntaxError: Unexpected token''
   \<and> handleEvent exampleMonitor exampleCollaborators
        \<lparr>eventName = Some ''message'', eventData = Some ''not json''\<rparr>
        \<lparr>extState = [], trace = []\<rparr>
      = (Returned, \<lparr>extState = [], trace = []\<rparr>)
   \<and> JSON_parse exampleCollaborators '''' = Inl ''SyntaxError: Unexpected token''
   \<and> handleEvent exampleMonitor exampleCollaborators
        \<lparr>eventName = Some ''receive'', eventData = Some ''''\<rparr>
        \<lparr>extState = [], trace = []\<rparr>
      = (Returned, \<lparr>extState = [], trace = []\<rparr>)"
  by (simp add: handleEvent_def example_defs)

end
